theory Spec2Isabelle
  imports Main "HOL-Library.Word" "HOL-Library.AList"
begin

section \<open>Errors\<close>

text \<open>
  Go \<open>error\<close> values. \<open>ErrCancelUpstreamKevent\<close> is the sentinel of package
  \<open>kerrors\<close>; \<open>Errno\<close> is \<open>syscall.Errno\<close>; \<open>Errorf\<close> is an error built by
  \<open>fmt.Errorf\<close> or \<open>errors.New\<close> from a format string, its string arguments and its
  error arguments; \<open>MultiError\<close> is what \<open>multierror.Wrap\<close> builds.
\<close>

datatype error =
    ErrCancelUpstreamKevent
  | Errno nat
  | Errorf string "string list" "error list"
  | MultiError "error list"

text \<open>
  Modelled from the spec: \<open>kerrors.IsCancelUpstreamKevent\<close> and \<open>multierror.Wrap\<close> are
  not among the sources. The first recognises the cancel-upstream sentinel, the second
  merges the collected errors into a single combined error.
\<close>

definition IsCancelUpstreamKevent :: "error \<Rightarrow> bool" where
  "IsCancelUpstreamKevent err = (err = ErrCancelUpstreamKevent)"

definition multierror_Wrap :: "error list \<Rightarrow> error" where
  "multierror_Wrap errs = MultiError errs"

section \<open>Events\<close>

type_synonym addr = nat

datatype ktype =
    CreateProcess | TerminateProcess | ProcessRundown
  | CreateThread | TerminateThread | ThreadRundown
  | LoadImage | ImageRundown
  | CreateHandle | CloseHandle | HandleRundown
  | OpenProcess | OpenThread
  | OtherKtype nat

datatype category = Process | Thread | Image | Handle | OtherCategory nat

datatype kname =
    kparams_ProcessID | kparams_ProcessParentID | kparams_ProcessName
  | kparams_Cmdline | kparams_Exe | kparams_UserSID | kparams_SessionID
  | kparams_ThreadID | kparams_UstackBase | kparams_UstackLimit
  | kparams_KstackBase | kparams_KstackLimit | kparams_IOPrio
  | kparams_BasePrio | kparams_PagePrio | kparams_StartAddr
  | kparams_ImageSize | kparams_ImageCheckSum | kparams_ImageFilename
  | kparams_ImageBase | kparams_ImageDefaultBase
  | kparams_HandleID | kparams_HandleObjectTypeID | kparams_HandleObject
  | kparams_HandleObjectName | kparams_HandleObjectTypeName
  | kparams_StartTime

datatype ktag =
    kparams_Uint8 | kparams_Uint16 | kparams_Uint32 | kparams_Uint64
  | kparams_HexInt | kparams_AnsiString | kparams_UnicodeString
  | kparams_FilePath | kparams_Time | kparams_SID | kparams_PID

datatype kvalue =
    VUint8 "8 word" | VUint16 "16 word" | VUint32 "32 word" | VUint64 "64 word"
  | VHex "64 word" | VString string | VTime nat | VBytes "8 word list"

record kparam =
  ktag :: ktag
  kval :: kvalue

type_synonym Kparams = "kname \<rightharpoonup> kparam"

record Kevent =
  Seq :: "64 word"
  PID :: "32 word"
  Tid :: "32 word"
  Type :: ktype
  Category :: category
  Timestamp :: nat
  PS :: "addr option"
  Kparams :: Kparams

text \<open>
  Modelled from the spec: the parameter map of package \<open>kevent\<close> is not among the
  sources. Parameter identifiers are unique within an event, so the parameters are a map;
  a getter fails when the parameter is absent or holds a value of another kind;
  \<open>Append\<close> stores a parameter under its name, \<open>Remove\<close> deletes it, \<open>SetValue\<close>
  replaces the value of a present parameter and fails on a missing one. A \<open>Must\<close>
  getter panics where the plain getter returns an error.
\<close>

definition missing :: "kname \<Rightarrow> error" where
  "missing n = Errorf ''parameter not found or of another kind'' [] []"

definition GetUint8 :: "Kparams \<Rightarrow> kname \<Rightarrow> error + 8 word" where
  "GetUint8 kpars n =
     (case kpars n of
        None \<Rightarrow> Inl (missing n)
      | Some p \<Rightarrow> (case kval p of VUint8 v \<Rightarrow> Inr v | _ \<Rightarrow> Inl (missing n)))"

definition GetUint16 :: "Kparams \<Rightarrow> kname \<Rightarrow> error + 16 word" where
  "GetUint16 kpars n =
     (case kpars n of
        None \<Rightarrow> Inl (missing n)
      | Some p \<Rightarrow> (case kval p of VUint16 v \<Rightarrow> Inr v | _ \<Rightarrow> Inl (missing n)))"

definition GetUint32 :: "Kparams \<Rightarrow> kname \<Rightarrow> error + 32 word" where
  "GetUint32 kpars n =
     (case kpars n of
        None \<Rightarrow> Inl (missing n)
      | Some p \<Rightarrow> (case kval p of VUint32 v \<Rightarrow> Inr v | _ \<Rightarrow> Inl (missing n)))"

definition GetUint64 :: "Kparams \<Rightarrow> kname \<Rightarrow> error + 64 word" where
  "GetUint64 kpars n =
     (case kpars n of
        None \<Rightarrow> Inl (missing n)
      | Some p \<Rightarrow> (case kval p of VUint64 v \<Rightarrow> Inr v | _ \<Rightarrow> Inl (missing n)))"

definition GetHex :: "Kparams \<Rightarrow> kname \<Rightarrow> error + 64 word" where
  "GetHex kpars n =
     (case kpars n of
        None \<Rightarrow> Inl (missing n)
      | Some p \<Rightarrow> (case kval p of VHex v \<Rightarrow> Inr v | _ \<Rightarrow> Inl (missing n)))"

definition GetString :: "Kparams \<Rightarrow> kname \<Rightarrow> error + string" where
  "GetString kpars n =
     (case kpars n of
        None \<Rightarrow> Inl (missing n)
      | Some p \<Rightarrow> (case kval p of VString v \<Rightarrow> Inr v | _ \<Rightarrow> Inl (missing n)))"

definition GetPid :: "Kparams \<Rightarrow> error + 32 word" where
  "GetPid kpars = GetUint32 kpars kparams_ProcessID"

definition GetPpid :: "Kparams \<Rightarrow> error + 32 word" where
  "GetPpid kpars = GetUint32 kpars kparams_ProcessParentID"

definition GetTid :: "Kparams \<Rightarrow> error + 32 word" where
  "GetTid kpars = GetUint32 kpars kparams_ThreadID"

definition MustGetUint32 :: "Kparams \<Rightarrow> kname \<Rightarrow> 32 word option" where
  "MustGetUint32 kpars n = (case GetUint32 kpars n of Inl err \<Rightarrow> None | Inr v \<Rightarrow> Some v)"

definition Append :: "Kparams \<Rightarrow> kname \<Rightarrow> ktag \<Rightarrow> kvalue \<Rightarrow> Kparams" where
  "Append kpars n t v = kpars(n \<mapsto> \<lparr>ktag = t, kval = v\<rparr>)"

definition Remove :: "Kparams \<Rightarrow> kname \<Rightarrow> Kparams" where
  "Remove kpars n = kpars(n := None)"

definition SetValue :: "Kparams \<Rightarrow> kname \<Rightarrow> kvalue \<Rightarrow> error + Kparams" where
  "SetValue kpars n v =
     (case kpars n of
        None \<Rightarrow> Inl (Errorf ''setting the value on a missing parameter is not allowed'' [] [])
      | Some p \<Rightarrow> Inr (kpars(n \<mapsto> p\<lparr>kval := v\<rparr>)))"

text \<open>
  \<open>GetParamAsString\<close> gives the empty string for an absent parameter and the string
  form of a present one; the rendering \<open>fmt\<close> of the values that are not strings is a
  parameter.
\<close>

definition GetParamAsString :: "(kvalue \<Rightarrow> string) \<Rightarrow> Kevent \<Rightarrow> kname \<Rightarrow> string" where
  "GetParamAsString fmt e n =
     (case Kparams e n of
        None \<Rightarrow> []
      | Some p \<Rightarrow> (case kval p of VString v \<Rightarrow> v | v \<Rightarrow> fmt v))"

text \<open>
  Modelled from the spec: \<open>IsCreateProcess\<close> is one of the classification flags
  that derive from the type of the event.
\<close>

definition IsCreateProcess :: "Kevent \<Rightarrow> bool" where
  "IsCreateProcess e = (Type e = CreateProcess)"

section \<open>Processor chain\<close>

text \<open>
  A processor receives the event by pointer, may change it in place, and returns an
  event pointer, the flag \<open>next\<close> and an error. In the model \<open>ProcessEvent p w e\<close>
  returns the event \<open>e\<close> as the processor left it, the event it returned (\<open>None\<close> for
  a nil pointer), the flag, the error, and the state \<open>w\<close> of everything the processors
  own or share.
\<close>

type_synonym 'w presult = "(Kevent \<times> Kevent option \<times> bool \<times> error option) \<times> 'w"

record 'w Processor =
  Name :: string
  ProcessEvent :: "'w \<Rightarrow> Kevent \<Rightarrow> 'w presult"
  Close :: "'w \<Rightarrow> 'w"

record 'w chain =
  processors :: "'w Processor list"

definition chain_addProcessor :: "'w chain \<Rightarrow> 'w Processor option \<Rightarrow> 'w chain" where
  "chain_addProcessor c processor =
     (case processor of
        None \<Rightarrow> c
      | Some p \<Rightarrow> c\<lparr>processors := processors c @ [p]\<rparr>)"

text \<open>
  The loop of \<open>chain.ProcessEvent\<close>. The arguments after the processors still to run
  are the event, the variables \<open>output\<close> and \<open>errs\<close>, the processors' state and the
  counter \<open>kevent.processor.failures\<close>. The first equation is the code after the loop.
\<close>

fun chain_ProcessEvent_loop ::
  "'w Processor list \<Rightarrow> Kevent \<Rightarrow> Kevent option \<Rightarrow> error list \<Rightarrow> 'w \<Rightarrow> int
     \<Rightarrow> (Kevent option \<times> error option) \<times> Kevent \<times> 'w \<times> int" where
  "chain_ProcessEvent_loop [] kevt output errs w pf =
     (if length errs > 0 then ((output, Some (multierror_Wrap errs)), kevt, w, pf)
      else ((output, None), kevt, w, pf))"
| "chain_ProcessEvent_loop (p # ps) kevt output errs w pf =
     (case ProcessEvent p w kevt of
        ((kevt', output', next, err), w') \<Rightarrow>
          (case err of
             Some er \<Rightarrow>
               if \<not> IsCancelUpstreamKevent er
               then chain_ProcessEvent_loop ps kevt' output'
                      (errs @ [Errorf ''%q processor failed with error: %v'' [Name p] [er]])
                      w' (pf + 1)
               else ((output', Some er), kevt', w', pf)
           | None \<Rightarrow>
               if \<not> next then chain_ProcessEvent_loop [] kevt' output' errs w' pf
               else chain_ProcessEvent_loop ps kevt' output' errs w' pf))"

definition chain_ProcessEvent ::
  "'w chain \<Rightarrow> Kevent \<Rightarrow> 'w \<Rightarrow> int \<Rightarrow> (Kevent option \<times> error option) \<times> Kevent \<times> 'w \<times> int" where
  "chain_ProcessEvent c kevt w pf = chain_ProcessEvent_loop (processors c) kevt None [] w pf"

fun chain_Close_loop :: "'w Processor list \<Rightarrow> 'w \<Rightarrow> 'w" where
  "chain_Close_loop [] w = w"
| "chain_Close_loop (p # ps) w = chain_Close_loop ps (Close p w)"

definition chain_Close :: "'w chain \<Rightarrow> 'w \<Rightarrow> error option \<times> 'w" where
  "chain_Close c w = (None, chain_Close_loop (processors c) w)"


subsection \<open>The walk of the chain, as the specification words it\<close>

text \<open>
  The specification describes \<open>ProcessEvent\<close> as a walk: processors run in order, a
  failing processor is passed over, the walk ends at the cancel-upstream sentinel or at
  a processor that succeeds with \<open>next = false\<close>, and afterwards the collected errors
  are merged. \<open>spec_walk\<close> is the list of the steps taken, each with the name of its
  processor; \<open>spec_ProcessEvent\<close> reads the result off that list.
\<close>

definition r_kevt :: "'w presult \<Rightarrow> Kevent" where
  "r_kevt r = fst (fst r)"

definition r_output :: "'w presult \<Rightarrow> Kevent option" where
  "r_output r = fst (snd (fst r))"

definition r_next :: "'w presult \<Rightarrow> bool" where
  "r_next r = fst (snd (snd (fst r)))"

definition r_err :: "'w presult \<Rightarrow> error option" where
  "r_err r = snd (snd (snd (fst r)))"

definition r_state :: "'w presult \<Rightarrow> 'w" where
  "r_state r = snd r"

definition r_cancels :: "'w presult \<Rightarrow> bool" where
  "r_cancels r = (case r_err r of Some er \<Rightarrow> IsCancelUpstreamKevent er | None \<Rightarrow> False)"

definition r_stops :: "'w presult \<Rightarrow> bool" where
  "r_stops r = (case r_err r of Some er \<Rightarrow> IsCancelUpstreamKevent er | None \<Rightarrow> \<not> r_next r)"

fun spec_walk :: "'w Processor list \<Rightarrow> 'w \<Rightarrow> Kevent \<Rightarrow> (string \<times> 'w presult) list" where
  "spec_walk [] w kevt = []"
| "spec_walk (p # ps) w kevt =
     (let r = ProcessEvent p w kevt
      in (Name p, r) # (if r_stops r then [] else spec_walk ps (r_state r) (r_kevt r)))"

fun spec_collect :: "(string \<times> 'w presult) list \<Rightarrow> error list" where
  "spec_collect [] = []"
| "spec_collect ((n, r) # rs) =
     (case r_err r of
        Some er \<Rightarrow>
          if IsCancelUpstreamKevent er then spec_collect rs
          else Errorf ''%q processor failed with error: %v'' [n] [er] # spec_collect rs
      | None \<Rightarrow> spec_collect rs)"

definition spec_ProcessEvent ::
  "'w chain \<Rightarrow> Kevent \<Rightarrow> 'w \<Rightarrow> int \<Rightarrow> (Kevent option \<times> error option) \<times> Kevent \<times> 'w \<times> int" where
  "spec_ProcessEvent c kevt w pf =
     (let rs = spec_walk (processors c) w kevt;
          collected = spec_collect rs;
          output = (if rs = [] then None else r_output (snd (last rs)));
          kevt' = (if rs = [] then kevt else r_kevt (snd (last rs)));
          w' = (if rs = [] then w else r_state (snd (last rs)));
          pf' = pf + int (length collected)
      in if rs \<noteq> [] \<and> r_cancels (snd (last rs))
         then ((output, r_err (snd (last rs))), kevt', w', pf')
         else ((output, if collected = [] then None else Some (MultiError collected)),
               kevt', w', pf'))"

subsection \<open>Stub processors\<close>

text \<open>
  A processor that leaves the event alone, answers with a fixed flag and error, and
  records its name in the shared state, a log, on every call of \<open>ProcessEvent\<close> and of
  \<open>Close\<close>. Chains of such processors are the test inputs of the chain runner.
\<close>

definition stub_processor :: "string \<Rightarrow> bool \<Rightarrow> error option \<Rightarrow> string list Processor" where
  "stub_processor n nx er =
     \<lparr>Name = n,
      ProcessEvent = (\<lambda>w e. ((e, Some e, nx, er), w @ [n])),
      Close = (\<lambda>w. w @ [n])\<rparr>"

definition empty_chain :: "'w chain" where
  "empty_chain = \<lparr>processors = []\<rparr>"

definition stub_event :: Kevent where
  "stub_event =
     \<lparr>Seq = 0, PID = 100, Tid = 1, Type = CreateProcess, Category = Process,
      Timestamp = 0, PS = None, Kparams = Map.empty\<rparr>"

definition two_stub_chain :: "string list chain" where
  "two_stub_chain =
     chain_addProcessor
       (chain_addProcessor empty_chain (Some (stub_processor ''ps'' True None)))
       (Some (stub_processor ''handle'' True None))"

section \<open>Trace consumer\<close>

text \<open>
  What the consumer is given and does not own. \<open>decode\<close> is the decoding done by
  \<open>kevent.New\<close>; \<open>processors_chain\<close> is the field \<open>processors\<close>;
  \<open>psnapshotter_Find\<close> is \<open>Find\<close> of the process snapshotter, which in live mode may
  insert a record and so returns the state as well; \<open>ExcludeImage\<close> and
  \<open>ExcludeKevent\<close> are the two predicates of the configuration; \<open>IsState\<close>,
  \<open>IsRundown\<close> and \<open>IsRundownProcessed\<close> are the classification methods of the
  event; \<open>currentPid\<close> is the PID of the agent. None of them is among the sources.
  The type \<open>'r\<close> is the raw event record, \<open>'w\<close> the state that the processors and
  the snapshotter work on.
\<close>

record ('r, 'w) kstream_env =
  decode :: "'r \<Rightarrow> Kevent option"
  processors_chain :: "'w chain"
  psnapshotter_Find :: "'w \<Rightarrow> 32 word \<Rightarrow> addr option \<times> 'w"
  ExcludeImage :: "'w \<Rightarrow> addr option \<Rightarrow> bool"
  ExcludeKevent :: "Kevent \<Rightarrow> bool"
  IsState :: "Kevent \<Rightarrow> bool"
  IsRundown :: "Kevent \<Rightarrow> bool"
  IsRundownProcessed :: "Kevent \<Rightarrow> bool"
  currentPid :: "32 word"

text \<open>
  The consumer with the counters of its package. The channels \<open>errs\<close> and \<open>kevts\<close>
  are the lists of what was sent on them, oldest first (their capacity, and the blocking
  of a send on a full channel, are left out); \<open>callbackCalls\<close> lists the events handed
  to the event callback and \<open>released\<close> the events given back with \<open>Release\<close>.
\<close>

record 'w kstreamConsumer =
  errs_chan :: "error list"
  kevts :: "Kevent list"
  world :: 'w
  sequencer :: "64 word"
  kfilter :: "('w \<Rightarrow> Kevent \<Rightarrow> bool) option"
  capture :: bool
  eventCallback :: "(Kevent \<Rightarrow> error option) option"
  callbackCalls :: "Kevent list"
  released :: "Kevent list"
  failedKevents :: "error \<Rightarrow> int"
  keventsEnqueued :: int
  excludedKevents :: int
  excludedProcs :: int
  upstreamCancellations :: int
  processorFailures :: int

text \<open>
  Modelled from the spec: \<open>kevent.New\<close>, \<open>Sequencer\<close>, \<open>Kevent.CurrentPid\<close> and
  \<open>Publish\<close> are not among the sources. The record callback allocates a fresh event
  stamped with \<open>sequencer.Get()\<close>, and decoding may yield nothing; the sequencer is a
  64-bit counter read by \<open>Get\<close> and advanced by one by \<open>Increment\<close>; an event is the
  agent's own when its PID equals the agent's PID; \<open>Publish\<close> hands the event that
  the chain returned to the publish function, and a nil event is not published.
\<close>

definition kevent_New :: "('r, 'w) kstream_env \<Rightarrow> 64 word \<Rightarrow> 'r \<Rightarrow> Kevent option" where
  "kevent_New env sq evt = map_option (\<lambda>e. e\<lparr>Seq := sq\<rparr>) (decode env evt)"

definition sequencer_Get :: "'w kstreamConsumer \<Rightarrow> 64 word" where
  "sequencer_Get k = sequencer k"

definition sequencer_Increment :: "'w kstreamConsumer \<Rightarrow> 'w kstreamConsumer" where
  "sequencer_Increment k = k\<lparr>sequencer := sequencer k + 1\<rparr>"

definition CurrentPid :: "('r, 'w) kstream_env \<Rightarrow> Kevent \<Rightarrow> bool" where
  "CurrentPid env e = (PID e = currentPid env)"

definition Publish ::
  "Kevent option \<Rightarrow> ('w kstreamConsumer \<Rightarrow> Kevent \<Rightarrow> error option \<times> 'w kstreamConsumer)
     \<Rightarrow> 'w kstreamConsumer \<Rightarrow> error option \<times> 'w kstreamConsumer" where
  "Publish evts fn k = (case evts of None \<Rightarrow> (None, k) | Some e \<Rightarrow> fn k e)"

text \<open>
  \<open>Release\<close> gives the buffers of a dropped event back to their owner; the model
  records the event.
\<close>

definition Release :: "'w kstreamConsumer \<Rightarrow> Kevent \<Rightarrow> 'w kstreamConsumer" where
  "Release k e = k\<lparr>released := released k @ [e]\<rparr>"

definition isEventDropped ::
  "('r, 'w) kstream_env \<Rightarrow> 'w kstreamConsumer \<Rightarrow> Kevent \<Rightarrow> bool \<times> 'w kstreamConsumer" where
  "isEventDropped env k e =
     (if IsState env e \<and> \<not> capture k then (True, k)
      else if IsRundown env e \<and> IsRundownProcessed env e then (True, k)
      else if CurrentPid env e then (True, k)
      else if ExcludeKevent env e
        then (True, k\<lparr>excludedKevents := excludedKevents k + 1\<rparr>)
      else (case kfilter k of
              Some f \<Rightarrow> (\<not> f (world k) e, k)
            | None \<Rightarrow> (False, k)))"

definition publishEvent ::
  "('r, 'w) kstream_env \<Rightarrow> 'w kstreamConsumer \<Rightarrow> Kevent \<Rightarrow> error option \<times> 'w kstreamConsumer" where
  "publishEvent env k e =
     (case psnapshotter_Find env (world k) (PID e) of
        (proc, w1) \<Rightarrow>
          let k1 = k\<lparr>world := w1\<rparr> in
          if ExcludeImage env w1 proc
          then (None, (Release k1 e)\<lparr>excludedProcs := excludedProcs k1 + 1\<rparr>)
          else
            let e1 = (if PS e = None then e\<lparr>PS := proc\<rparr> else e) in
            (case isEventDropped env k1 e1 of
               (dropped, k2) \<Rightarrow>
                 if dropped then (None, Release k2 e1)
                 else
                   let k3 = (if \<not> IsState env e1 then sequencer_Increment k2 else k2) in
                   (case eventCallback k3 of
                      Some cb \<Rightarrow> (cb e1, k3\<lparr>callbackCalls := callbackCalls k3 @ [e1]\<rparr>)
                    | None \<Rightarrow>
                        (None, k3\<lparr>kevts := kevts k3 @ [e1],
                                  keventsEnqueued := keventsEnqueued k3 + 1\<rparr>))))"

definition processEvent ::
  "('r, 'w) kstream_env \<Rightarrow> 'w kstreamConsumer \<Rightarrow> 'r \<Rightarrow> error option \<times> 'w kstreamConsumer" where
  "processEvent env k evt =
     (case kevent_New env (sequencer_Get k) evt of
        None \<Rightarrow> (None, k)
      | Some e \<Rightarrow>
          (case chain_ProcessEvent (processors_chain env) e (world k) (processorFailures k) of
             ((evts, err), e', w', pf') \<Rightarrow>
               let k1 = k\<lparr>world := w', processorFailures := pf'\<rparr> in
               (case err of
                  Some er \<Rightarrow>
                    if IsCancelUpstreamKevent er
                    then (None, k1\<lparr>upstreamCancellations := upstreamCancellations k1 + 1\<rparr>)
                    else (Some er, k1)
                | None \<Rightarrow> Publish evts (publishEvent env) k1)))"

definition processEventCallback ::
  "('r, 'w) kstream_env \<Rightarrow> 'w kstreamConsumer \<Rightarrow> 'r \<Rightarrow> 'w kstreamConsumer" where
  "processEventCallback env k evt =
     (case processEvent env k evt of
        (Some err, k') \<Rightarrow>
          k'\<lparr>errs_chan := errs_chan k' @ [err],
             failedKevents := (failedKevents k')(err := failedKevents k' err + 1)\<rparr>
      | (None, k') \<Rightarrow> k')"

text \<open>
  The record callback in its three steps. \<open>openKstream\<close> starts one goroutine for
  every trace session; each of them runs \<open>ProcessTrace\<close>, which calls the record
  callback for the records of its session, and the callback takes no lock. A call of one
  session can therefore run between the steps of a call of another session. The steps
  are cut where the sequencer is used: \<open>decodeStep\<close> reads the sequencer, decodes
  the record and runs the chain; \<open>publishAdmit\<close> is \<open>publishEvent\<close> up to and
  including the increment of the sequencer; \<open>publishSend\<close> hands the event to the
  callback or sends it on the channel. \<open>recordFailure\<close> is what the record callback
  does with the error of \<open>processEvent\<close>.
\<close>

datatype phase = Idle | Decoded "64 word" Kevent | Admitted "64 word" Kevent

definition recordFailure :: "'w kstreamConsumer \<Rightarrow> error option \<Rightarrow> 'w kstreamConsumer" where
  "recordFailure k r =
     (case r of
        None \<Rightarrow> k
      | Some err \<Rightarrow>
          k\<lparr>errs_chan := errs_chan k @ [err],
            failedKevents := (failedKevents k)(err := failedKevents k err + 1)\<rparr>)"

definition decodeStep ::
  "('r, 'w) kstream_env \<Rightarrow> 'w kstreamConsumer \<Rightarrow> 'r \<Rightarrow> phase \<times> 'w kstreamConsumer" where
  "decodeStep env k evt =
     (case kevent_New env (sequencer_Get k) evt of
        None \<Rightarrow> (Idle, k)
      | Some e \<Rightarrow>
          (case chain_ProcessEvent (processors_chain env) e (world k) (processorFailures k) of
             ((evts, err), e', w', pf') \<Rightarrow>
               let k1 = k\<lparr>world := w', processorFailures := pf'\<rparr> in
               (case err of
                  Some er \<Rightarrow>
                    if IsCancelUpstreamKevent er
                    then (Idle, k1\<lparr>upstreamCancellations := upstreamCancellations k1 + 1\<rparr>)
                    else (Idle, recordFailure k1 (Some er))
                | None \<Rightarrow>
                    (case evts of
                       None \<Rightarrow> (Idle, k1)
                     | Some out \<Rightarrow> (Decoded (sequencer_Get k) out, k1)))))"

definition publishAdmit ::
  "('r, 'w) kstream_env \<Rightarrow> 'w kstreamConsumer \<Rightarrow> Kevent \<Rightarrow> Kevent option \<times> 'w kstreamConsumer" where
  "publishAdmit env k e =
     (case psnapshotter_Find env (world k) (PID e) of
        (proc, w1) \<Rightarrow>
          let k1 = k\<lparr>world := w1\<rparr> in
          if ExcludeImage env w1 proc
          then (None, (Release k1 e)\<lparr>excludedProcs := excludedProcs k1 + 1\<rparr>)
          else
            let e1 = (if PS e = None then e\<lparr>PS := proc\<rparr> else e) in
            (case isEventDropped env k1 e1 of
               (dropped, k2) \<Rightarrow>
                 if dropped then (None, Release k2 e1)
                 else (Some e1, if \<not> IsState env e1 then sequencer_Increment k2 else k2)))"

definition publishSend ::
  "'w kstreamConsumer \<Rightarrow> Kevent \<Rightarrow> error option \<times> 'w kstreamConsumer" where
  "publishSend k e1 =
     (case eventCallback k of
        Some cb \<Rightarrow> (cb e1, k\<lparr>callbackCalls := callbackCalls k @ [e1]\<rparr>)
      | None \<Rightarrow> (None, k\<lparr>kevts := kevts k @ [e1], keventsEnqueued := keventsEnqueued k + 1\<rparr>))"

text \<open>
  A trace session is the step its current call of the record callback is at, and the
  records it has still to hand over. \<open>session_step\<close> runs the next step of a session
  and returns, besides the consumer and the session, the delivery it made, if any: the
  delivered event, paired with the value of the sequencer that the call read in
  \<open>decodeStep\<close>.
\<close>

type_synonym 'r session = "phase \<times> 'r list"

fun session_step ::
  "('r, 'w) kstream_env \<Rightarrow> 'w kstreamConsumer \<Rightarrow> 'r session
     \<Rightarrow> 'w kstreamConsumer \<times> 'r session \<times> (64 word \<times> Kevent) list" where
  "session_step env k (Idle, []) = (k, (Idle, []), [])"
| "session_step env k (Idle, evt # evts) =
     (case decodeStep env k evt of (ph, k1) \<Rightarrow> (k1, (ph, evts), []))"
| "session_step env k (Decoded sq out, evts) =
     (case publishAdmit env k out of
        (None, k1) \<Rightarrow> (k1, (Idle, evts), [])
      | (Some e1, k1) \<Rightarrow> (k1, (Admitted sq e1, evts), []))"
| "session_step env k (Admitted sq e1, evts) =
     (case publishSend k e1 of
        (err, k1) \<Rightarrow> (recordFailure k1 err, (Idle, evts), [(sq, e1)]))"

text \<open>
  The sessions run as a schedule tells: the schedule lists, step by step, the index of
  the session whose goroutine runs next; an index that names no session is passed
  over. The deliveries are collected in the order they are made. With one session the
  calls of the record callback follow one another, as \<open>ProcessTrace\<close> makes them.
\<close>

fun sessions_run ::
  "('r, 'w) kstream_env \<Rightarrow> 'w kstreamConsumer \<Rightarrow> 'r session list
     \<Rightarrow> (64 word \<times> Kevent) list \<Rightarrow> nat list
     \<Rightarrow> 'w kstreamConsumer \<times> 'r session list \<times> (64 word \<times> Kevent) list" where
  "sessions_run env k ss lg [] = (k, ss, lg)"
| "sessions_run env k ss lg (i # sched) =
     (if i < length ss
      then (case session_step env k (ss ! i) of
              (k1, s1, d) \<Rightarrow> sessions_run env k1 (ss[i := s1]) (lg @ d) sched)
      else sessions_run env k ss lg sched)"


text \<open>
  A processor keeps the sequence number when neither the event it was given nor the
  event it returns carries another number than the event had on entry.
\<close>

definition keeps_Seq :: "'w Processor \<Rightarrow> bool" where
  "keeps_Seq p =
     (\<forall>w e. Seq (r_kevt (ProcessEvent p w e)) = Seq e \<and>
            (\<forall>out. r_output (ProcessEvent p w e) = Some out \<longrightarrow> Seq out = Seq e))"



definition has_Seq :: "64 word \<Rightarrow> Kevent option \<Rightarrow> bool" where
  "has_Seq s out = (case out of None \<Rightarrow> True | Some e \<Rightarrow> Seq e = s)"


definition carries_stamp :: "64 word \<times> Kevent \<Rightarrow> bool" where
  "carries_stamp x = (Seq (snd x) = fst x)"



fun phase_stamped :: "phase \<Rightarrow> bool" where
  "phase_stamped Idle = True"
| "phase_stamped (Decoded sq out) = (Seq out = sq)"
| "phase_stamped (Admitted sq e1) = (Seq e1 = sq)"



section \<open>Handle processor\<close>

text \<open>
  What the handle processor calls outside the sources: \<open>Write\<close> and \<open>Remove\<close> of the
  handle snapshotter, whose state is of type \<open>'h\<close>; \<open>handle.Duplicate\<close> (always asked
  for all access) and \<open>handle.QueryType\<close>; the device mapper; \<open>key.Format\<close>, which
  returns the root key, \<open>None\<close> standing for \<open>key.Invalid\<close> and \<open>Some r\<close> for a root
  whose \<open>String()\<close> is \<open>r\<close>, and the subkey; the file names of the loaded drivers;
  \<open>filepath.Base\<close> and \<open>strings.EqualFold\<close>; the string form of a parameter value.
\<close>

record 'h handle_env =
  hsnap_Write :: "'h \<Rightarrow> Kevent \<Rightarrow> error option \<times> 'h"
  hsnap_Remove :: "'h \<Rightarrow> Kevent \<Rightarrow> error option \<times> 'h"
  handle_Duplicate :: "32 word \<Rightarrow> 32 word \<Rightarrow> error + 64 word"
  handle_QueryType :: "64 word \<Rightarrow> error + string"
  devMapper_Convert :: "string \<Rightarrow> string"
  key_Format :: "string \<Rightarrow> string option \<times> string"
  driver_EnumDevices :: "string list"
  filepath_Base :: "string \<Rightarrow> string"
  strings_EqualFold :: "string \<Rightarrow> string \<Rightarrow> bool"
  kparam_String :: "kvalue \<Rightarrow> string"

text \<open>
  The processor: the handle snapshotter, the object type store, the table \<open>objects\<close>
  of the pending \<open>CreateHandle\<close> events, the counter \<open>handle.deferred.matches\<close> and
  the duplicated handles that were closed.
\<close>

record 'h handleProcessor =
  hsnap :: 'h
  typeStore :: "8 word \<rightharpoonup> string"
  objects :: "64 word \<rightharpoonup> Kevent"
  handleDeferMatches :: int
  closedDups :: "64 word list"

text \<open>
  Modelled from the spec: the object type store and the names of the object types
  (package \<open>handle\<close>) are not among the sources. The store maps a type id to its name,
  \<open>FindByID\<close> gives the empty string for an id that was not registered; the three
  types with a canonical name are registry keys, files and drivers.
\<close>

definition FindByID :: "(8 word \<rightharpoonup> string) \<Rightarrow> 8 word \<Rightarrow> string" where
  "FindByID ts i = (case ts i of None \<Rightarrow> [] | Some n \<Rightarrow> n)"

definition RegisterType :: "(8 word \<rightharpoonup> string) \<Rightarrow> 8 word \<Rightarrow> string \<Rightarrow> (8 word \<rightharpoonup> string)" where
  "RegisterType ts i n = ts(i \<mapsto> n)"

definition handle_Key :: string where "handle_Key = ''Key''"
definition handle_File :: string where "handle_File = ''File''"
definition handle_Driver :: string where "handle_Driver = ''Driver''"

definition backslash :: char where
  "backslash = CHR 0x5C"

definition strings_TrimPrefix :: "string \<Rightarrow> string \<Rightarrow> string" where
  "strings_TrimPrefix s prefix =
     (if take (length prefix) s = prefix then drop (length prefix) s else s)"

text \<open>The lookup of the type name, lines 89 to 101 of the processor.\<close>

definition resolveTypeName ::
  "'h handle_env \<Rightarrow> 'h handleProcessor \<Rightarrow> Kevent \<Rightarrow> 32 word \<Rightarrow> 16 word
     \<Rightarrow> (error + string) \<times> 'h handleProcessor" where
  "resolveTypeName env h e handleID typeID =
     (let typeName = FindByID (typeStore h) (ucast typeID) in
      if typeName = [] then
        (case handle_Duplicate env handleID (PID e) of
           Inl err \<Rightarrow> (Inl err, h)
         | Inr dup \<Rightarrow>
             (case handle_QueryType env dup of
                Inl err \<Rightarrow> (Inl err, h\<lparr>closedDups := closedDups h @ [dup]\<rparr>)
              | Inr tn \<Rightarrow>
                  (Inr tn, h\<lparr>typeStore := RegisterType (typeStore h) (ucast typeID) tn,
                             closedDups := closedDups h @ [dup]\<rparr>)))
      else (Inr typeName, h))"

text \<open>The \<open>switch\<close> on the type name: the name and the parameters it leaves.\<close>

definition canonicalName ::
  "'h handle_env \<Rightarrow> string \<Rightarrow> string \<Rightarrow> Kparams \<Rightarrow> string \<times> Kparams" where
  "canonicalName env typeName name kpars =
     (if typeName = handle_Key then
        (case key_Format env name of
           (None, keyName) \<Rightarrow> (name, kpars)
         | (Some rootKey, keyName) \<Rightarrow>
             (if keyName \<noteq> [] then rootKey @ [backslash] @ keyName else rootKey, kpars))
      else if typeName = handle_File then (devMapper_Convert env name, kpars)
      else if typeName = handle_Driver then
        (let driverName =
               strings_TrimPrefix name ([backslash] @ ''Driver'' @ [backslash]) @ ''.sys''
         in (name,
             fold (\<lambda>drv kp.
                     if strings_EqualFold env (filepath_Base env drv) driverName
                     then Append kp kparams_ImageFilename kparams_FilePath (VString drv)
                     else kp)
               (driver_EnumDevices env) kpars))
      else (name, kpars))"

text \<open>
  The pairing of a \<open>CreateHandle\<close> with its \<open>CloseHandle\<close>, lines 138 to 175. The
  result is the returned event and error, and the processor.
\<close>

definition pairHandles ::
  "'h handle_env \<Rightarrow> 'h handleProcessor \<Rightarrow> Kevent \<Rightarrow> 64 word \<Rightarrow> string \<Rightarrow> string
     \<Rightarrow> (Kevent \<times> error option) \<times> 'h handleProcessor" where
  "pairHandles env h e object typeName name =
     (if Type e = CreateHandle then
        (if name = [] then
           ((e, Some ErrCancelUpstreamKevent), h\<lparr>objects := (objects h)(object \<mapsto> e)\<rparr>)
         else
           (case hsnap_Write env (hsnap h) e of
              (err, hs) \<Rightarrow> ((e, err), h\<lparr>hsnap := hs\<rparr>)))
      else
        (case objects h object of
           Some evt \<Rightarrow>
             (let h1 = h\<lparr>objects := (objects h)(object := None)\<rparr> in
              case SetValue (Kparams evt) kparams_HandleObjectName (VString name) of
                Inl err \<Rightarrow> ((e, Some err), h1)
              | Inr kp \<Rightarrow>
                  (let evt1 = evt\<lparr>Kparams := kp\<rparr>;
                       h2 = h1\<lparr>handleDeferMatches := handleDeferMatches h1 + 1\<rparr>;
                       evt2 =
                         (if typeName = handle_Driver
                          then evt1\<lparr>Kparams :=
                                 Append (Kparams evt1) kparams_ImageFilename kparams_FilePath
                                   (VString (GetParamAsString (kparam_String env) e
                                      kparams_ImageFilename))\<rparr>
                          else evt1)
                   in case hsnap_Write env (hsnap h2) evt2 of
                        (Some werr, hs1) \<Rightarrow>
                          (case hsnap_Remove env hs1 e of
                             (Some err, hs2) \<Rightarrow> ((e, Some err), h2\<lparr>hsnap := hs2\<rparr>)
                           | (None, hs2) \<Rightarrow>
                               (case hsnap_Remove env hs2 e of
                                  (err, hs3) \<Rightarrow> ((evt2, err), h2\<lparr>hsnap := hs3\<rparr>)))
                      | (None, hs1) \<Rightarrow>
                          (case hsnap_Remove env hs1 e of
                             (err, hs2) \<Rightarrow> ((evt2, err), h2\<lparr>hsnap := hs2\<rparr>))))
         | None \<Rightarrow>
             (case hsnap_Remove env (hsnap h) e of
                (err, hs) \<Rightarrow> ((e, err), h\<lparr>hsnap := hs\<rparr>))))"

text \<open>
  \<open>handleProcessor.processEvent\<close>: the returned event and error, the event \<open>e\<close> as
  the function leaves it, and the processor.
\<close>

definition handleProcessor_processEvent ::
  "'h handle_env \<Rightarrow> 'h handleProcessor \<Rightarrow> Kevent
     \<Rightarrow> (Kevent \<times> error option) \<times> Kevent \<times> 'h handleProcessor" where
  "handleProcessor_processEvent env h e =
     (case GetUint32 (Kparams e) kparams_HandleID of
        Inl err \<Rightarrow> ((e, Some err), e, h)
      | Inr handleID \<Rightarrow>
     (case GetUint16 (Kparams e) kparams_HandleObjectTypeID of
        Inl err \<Rightarrow> ((e, Some err), e, h)
      | Inr typeID \<Rightarrow>
     (case GetUint64 (Kparams e) kparams_HandleObject of
        Inl err \<Rightarrow> ((e, Some err), e, h)
      | Inr object \<Rightarrow>
     (case resolveTypeName env h e handleID typeID of
        (Inl err, h1) \<Rightarrow> ((e, Some err), e, h1)
      | (Inr typeName, h1) \<Rightarrow>
          (let e1 = e\<lparr>Kparams :=
                      Remove (Append (Kparams e) kparams_HandleObjectTypeName
                                kparams_AnsiString (VString typeName))
                        kparams_HandleObjectTypeID\<rparr>
           in case GetString (Kparams e1) kparams_HandleObjectName of
                Inl err \<Rightarrow> ((e1, Some err), e1, h1)
              | Inr name \<Rightarrow>
                  (case canonicalName env typeName name (Kparams e1) of
                     (name', kp) \<Rightarrow>
                       (let e2 = e1\<lparr>Kparams := kp\<rparr>
                        in case SetValue (Kparams e2) kparams_HandleObjectName (VString name') of
                             Inl err \<Rightarrow> ((e2, Some err), e2, h1)
                           | Inr kp' \<Rightarrow>
                               (let e3 = e2\<lparr>Kparams := kp'\<rparr>
                                in case pairHandles env h1 e3 object typeName name' of
                                     (r, h2) \<Rightarrow> (r, e3, h2)))))))))"

definition handleProcessor_ProcessEvent ::
  "'h handle_env \<Rightarrow> 'h handleProcessor \<Rightarrow> Kevent \<Rightarrow> 'h handleProcessor presult" where
  "handleProcessor_ProcessEvent env h e =
     (if Category e = Handle then
        (case handleProcessor_processEvent env h e of
           ((out, err), e', h') \<Rightarrow> ((e', Some out, False, err), h'))
      else ((e, Some e, True, None), h))"

definition newHandleProcessor :: "'h handle_env \<Rightarrow> 'h handleProcessor Processor" where
  "newHandleProcessor env =
     \<lparr>Name = ''handle'',
      ProcessEvent = handleProcessor_ProcessEvent env,
      Close = (\<lambda>h. h)\<rparr>"

section \<open>Test fixtures of the consumer and of the handle processor\<close>

text \<open>
  A handle snapshotter that counts its calls and fails as told, a type store that knows
  the type \<open>Key\<close> under the id 7, a \<open>key.Format\<close> that knows the root
  \<open>\REGISTRY\MACHINE\<close>, no loaded driver, and a process whose handles cannot be
  duplicated.
\<close>

definition registry_machine :: string where
  "registry_machine = [backslash] @ ''REGISTRY'' @ [backslash] @ ''MACHINE'' @ [backslash]"

definition test_handle_env :: "bool \<Rightarrow> bool \<Rightarrow> nat handle_env" where
  "test_handle_env write_fails remove_fails =
     \<lparr>hsnap_Write = (\<lambda>h e. (if write_fails then Some (Errno 5) else None, Suc h)),
      hsnap_Remove = (\<lambda>h e. (if remove_fails then Some (Errno 6) else None, Suc h)),
      handle_Duplicate = (\<lambda>handleID pid. Inl (Errno 6)),
      handle_QueryType = (\<lambda>dup. Inl (Errno 6)),
      devMapper_Convert = (\<lambda>n. n),
      key_Format =
        (\<lambda>n. if take (length registry_machine) n = registry_machine
             then (Some ''HKLM'', drop (length registry_machine) n) else (None, [])),
      driver_EnumDevices = [],
      filepath_Base = (\<lambda>n. n),
      strings_EqualFold = (\<lambda>a b. a = b),
      kparam_String = (\<lambda>v. [])\<rparr>"

definition test_handleProcessor :: "nat handleProcessor" where
  "test_handleProcessor =
     \<lparr>hsnap = 0, typeStore = [7 \<mapsto> handle_Key], objects = Map.empty,
      handleDeferMatches = 0, closedDups = []\<rparr>"

definition handle_event :: "ktype \<Rightarrow> 32 word \<Rightarrow> string \<Rightarrow> Kevent" where
  "handle_event t handleID name =
     \<lparr>Seq = 0, PID = 100, Tid = 1, Type = t, Category = Handle, Timestamp = 0, PS = None,
      Kparams =
        [kparams_HandleID \<mapsto> \<lparr>ktag = kparams_Uint32, kval = VUint32 handleID\<rparr>,
         kparams_HandleObjectTypeID \<mapsto> \<lparr>ktag = kparams_Uint16, kval = VUint16 7\<rparr>,
         kparams_HandleObject \<mapsto> \<lparr>ktag = kparams_HexInt, kval = VUint64 0xabc\<rparr>,
         kparams_HandleObjectName \<mapsto> \<lparr>ktag = kparams_UnicodeString, kval = VString name\<rparr>]\<rparr>"

text \<open>
  A consumer environment: records are decoded events, \<open>Find\<close> answers from a table
  and leaves the state alone, the image filter is a predicate on what \<open>Find\<close> returned,
  no event kind is excluded, the state events are the rundown events, no rundown has been
  processed, and the agent has the PID 4242.
\<close>

definition test_kstream_env ::
  "'w chain \<Rightarrow> (32 word \<Rightarrow> addr option) \<Rightarrow> (addr option \<Rightarrow> bool) \<Rightarrow> (Kevent, 'w) kstream_env" where
  "test_kstream_env c fnd excl =
     \<lparr>decode = Some,
      processors_chain = c,
      psnapshotter_Find = (\<lambda>w pid. (fnd pid, w)),
      ExcludeImage = (\<lambda>w p. excl p),
      ExcludeKevent = (\<lambda>e. False),
      IsState = (\<lambda>e. Type e = ProcessRundown \<or> Type e = ThreadRundown
                     \<or> Type e = ImageRundown \<or> Type e = HandleRundown),
      IsRundown = (\<lambda>e. Type e = ProcessRundown \<or> Type e = ThreadRundown
                     \<or> Type e = ImageRundown \<or> Type e = HandleRundown),
      IsRundownProcessed = (\<lambda>e. False),
      currentPid = 4242\<rparr>"

text \<open>
  Three environments: one whose chain is two stub processors and in which no process is
  known and no image excluded; one in which the agent's own process is known and its
  image excluded; one whose chain is the handle processor.
\<close>

definition plain_env :: "(Kevent, string list) kstream_env" where
  "plain_env = test_kstream_env two_stub_chain (\<lambda>pid. None) (\<lambda>p. False)"

definition agent_excluded_env :: "(Kevent, string list) kstream_env" where
  "agent_excluded_env = test_kstream_env two_stub_chain (\<lambda>pid. Some 7) (\<lambda>p. p = Some 7)"

definition capture_env :: "(Kevent, nat handleProcessor) kstream_env" where
  "capture_env =
     test_kstream_env \<lparr>processors = [newHandleProcessor (test_handle_env False False)]\<rparr>
       (\<lambda>pid. None) (\<lambda>p. False)"

definition NewConsumer :: "'w \<Rightarrow> bool \<Rightarrow> 'w kstreamConsumer" where
  "NewConsumer w cap =
     \<lparr>errs_chan = [], kevts = [], world = w, sequencer = 0, kfilter = None, capture = cap,
      eventCallback = None, callbackCalls = [], released = [], failedKevents = (\<lambda>err. 0),
      keventsEnqueued = 0, excludedKevents = 0, excludedProcs = 0, upstreamCancellations = 0,
      processorFailures = 0\<rparr>"

definition process_event :: "ktype \<Rightarrow> 32 word \<Rightarrow> Kevent" where
  "process_event t pid =
     \<lparr>Seq = 0, PID = pid, Tid = 1, Type = t, Category = Process, Timestamp = 0, PS = None,
      Kparams = Map.empty\<rparr>"









text \<open>
  The held \<open>CreateHandle\<close> as the claim describes it once its \<open>CloseHandle\<close> has
  arrived: its \<open>HandleObjectName\<close> is the resolved name of the \<open>CloseHandle\<close>, and
  when the type is \<open>Driver\<close> it carries the \<open>ImageFilename\<close> of the \<open>CloseHandle\<close>.
\<close>

definition with_object_name :: "Kevent \<Rightarrow> string \<Rightarrow> Kevent" where
  "with_object_name evt name =
     evt\<lparr>Kparams := (Kparams evt)
            (kparams_HandleObjectName :=
               map_option (\<lambda>p. p\<lparr>kval := VString name\<rparr>)
                 (Kparams evt kparams_HandleObjectName))\<rparr>"

definition completed_CreateHandle ::
  "'h handle_env \<Rightarrow> Kevent \<Rightarrow> Kevent \<Rightarrow> string \<Rightarrow> string \<Rightarrow> Kevent" where
  "completed_CreateHandle env evt e typeName name =
     (if typeName = handle_Driver
      then (with_object_name evt name)
             \<lparr>Kparams := (Kparams (with_object_name evt name))
                (kparams_ImageFilename \<mapsto>
                   \<lparr>ktag = kparams_FilePath,
                    kval = VString (GetParamAsString (kparam_String env) e
                              kparams_ImageFilename)\<rparr>)\<rparr>
      else with_object_name evt name)"

definition software_x :: string where
  "software_x = ''SOFTWARE'' @ [backslash] @ ''X''"

text \<open>
  The processor after a \<open>CreateHandle\<close> on the object \<open>0xabc\<close> that resolved to an
  empty name, and the \<open>CloseHandle\<close> on the same object that carries the name.
\<close>

definition pending_handleProcessor :: "nat handle_env \<Rightarrow> nat handleProcessor" where
  "pending_handleProcessor env =
     snd (handleProcessor_ProcessEvent env test_handleProcessor (handle_event CreateHandle 44 []))"

definition close_event :: Kevent where
  "close_event = handle_event CloseHandle 44 (registry_machine @ software_x)"


section \<open>Process snapshotter\<close>

datatype PE = PE "string list"

type_synonym htypes_Handle = "64 word \<times> string \<times> string"

record Thread =
  Thread_Tid :: "32 word"
  Thread_UstackBase :: "64 word"
  Thread_UstackLimit :: "64 word"
  Thread_KstackBase :: "64 word"
  Thread_KstackLimit :: "64 word"
  Thread_IOPrio :: "8 word"
  Thread_BasePrio :: "8 word"
  Thread_PagePrio :: "8 word"
  Thread_Entrypoint :: "64 word"

record Module =
  Module_Size :: "32 word"
  Module_Checksum :: "32 word"
  Module_Name :: string
  Module_BaseAddress :: "64 word"
  Module_DefaultBaseAddress :: "64 word"

text \<open>
  The process record \<open>pstypes.PS\<close>. The snapshotter and the events hold pointers to
  process records, and a record points to its parent, so the records live in a store
  and \<open>PS_Parent\<close>, like the field \<open>PS\<close> of an event and the values of the index, is
  an address or nil.
\<close>

record PS =
  PS_PID :: "32 word"
  PS_Ppid :: "32 word"
  PS_Name :: string
  PS_Cmdline :: string
  PS_Exe :: string
  PS_SID :: string
  PS_SessionID :: "8 word"
  PS_PE :: "PE option"
  PS_Cwd :: string
  PS_Envs :: "(string \<times> string) list"
  PS_Parent :: "addr option"
  PS_Threads :: "32 word \<rightharpoonup> Thread"
  PS_Modules :: "Module list"
  PS_Handles :: "htypes_Handle list"

record PEB =
  GetEnvs :: "(string \<times> string) list"
  GetCurrentWorkingDirectory :: string
  GetCommandLine :: string

text \<open>
  What the snapshotter calls outside the sources: the PE reader and \<open>FindHandles\<close> of
  the handle snapshotter, each returning a value and an error; \<open>windows.OpenProcess\<close>
  with the access rights and the PID; \<open>ReadPEB\<close>; \<open>zsyscall.IsProcessRunning\<close>; the
  string form of a parameter value.
\<close>

record snapshotter_env =
  pe_Read :: "string \<Rightarrow> PE option \<times> error option"
  hsnap_FindHandles :: "32 word \<Rightarrow> htypes_Handle list \<times> error option"
  windows_OpenProcess :: "32 word \<Rightarrow> 32 word \<Rightarrow> error + 64 word"
  ReadPEB :: "64 word \<Rightarrow> error + PEB"
  zsyscall_IsProcessRunning :: "64 word \<Rightarrow> bool"
  param_String :: "kvalue \<Rightarrow> string"

definition PROCESS_QUERY_INFORMATION :: "32 word" where
  "PROCESS_QUERY_INFORMATION = 0x0400"

definition PROCESS_VM_READ :: "32 word" where
  "PROCESS_VM_READ = 0x0010"

definition PROCESS_QUERY_LIMITED_INFORMATION :: "32 word" where
  "PROCESS_QUERY_LIMITED_INFORMATION = 0x1000"

text \<open>
  The snapshotter with the counters of its package. The index \<open>procs\<close> is a Go map
  from PID to record pointer: a list of pairs with \<open>map_of\<close> for the lookup,
  \<open>AList.update\<close> for the assignment and \<open>AList.delete\<close> for \<open>delete\<close>; a
  \<open>range\<close> loop visits the pairs in the order of the list. \<open>store\<close> holds the
  process records and \<open>brk\<close> is the first address not yet allocated.
\<close>

record snapshotter =
  procs :: "(32 word \<times> addr) list"
  store :: "addr \<Rightarrow> PS"
  brk :: addr
  snap_capture :: bool
  processCount :: int
  threadCount :: int
  moduleCount :: int
  reapedProcesses :: int
  pebReadErrors :: int

text \<open>
  Modelled from the spec: \<open>pstypes.NewProc\<close> and the methods \<open>AddThread\<close> and
  \<open>AddModule\<close> of a process record are not among the sources. A new record has the
  seven given attributes and nothing else; threads are keyed by TID, and every loaded
  module adds an entry to the modules.
\<close>

definition NewProc ::
  "32 word \<Rightarrow> 32 word \<Rightarrow> string \<Rightarrow> string \<Rightarrow> string \<Rightarrow> string \<Rightarrow> 8 word \<Rightarrow> PS" where
  "NewProc pid ppid name cmndline exe sid sessionID =
     \<lparr>PS_PID = pid, PS_Ppid = ppid, PS_Name = name, PS_Cmdline = cmndline, PS_Exe = exe,
      PS_SID = sid, PS_SessionID = sessionID, PS_PE = None, PS_Cwd = [], PS_Envs = [],
      PS_Parent = None, PS_Threads = Map.empty, PS_Modules = [], PS_Handles = []\<rparr>"

definition AddThread :: "PS \<Rightarrow> Thread \<Rightarrow> PS" where
  "AddThread ps thread = ps\<lparr>PS_Threads := (PS_Threads ps)(Thread_Tid thread \<mapsto> thread)\<rparr>"

definition AddModule :: "PS \<Rightarrow> Module \<Rightarrow> PS" where
  "AddModule ps module = ps\<lparr>PS_Modules := PS_Modules ps @ [module]\<rparr>"

text \<open>The value that is assigned when the error of a getter is discarded.\<close>

definition or_zero :: "error + 'a \<Rightarrow> 'a \<Rightarrow> 'a" where
  "or_zero r z = (case r of Inl err \<Rightarrow> z | Inr v \<Rightarrow> v)"

definition alloc :: "snapshotter \<Rightarrow> PS \<Rightarrow> addr \<times> snapshotter" where
  "alloc s ps = (brk s, s\<lparr>store := (store s)(brk s := ps), brk := Suc (brk s)\<rparr>)"

definition set_Parent :: "snapshotter \<Rightarrow> addr \<Rightarrow> addr option \<Rightarrow> snapshotter" where
  "set_Parent s proc parent = s\<lparr>store := (store s)(proc := (store s proc)\<lparr>PS_Parent := parent\<rparr>)\<rparr>"

definition newThread :: "Kevent \<Rightarrow> Thread" where
  "newThread e =
     \<lparr>Thread_Tid = or_zero (GetTid (Kparams e)) 0,
      Thread_UstackBase = or_zero (GetHex (Kparams e) kparams_UstackBase) 0,
      Thread_UstackLimit = or_zero (GetHex (Kparams e) kparams_UstackLimit) 0,
      Thread_KstackBase = or_zero (GetHex (Kparams e) kparams_KstackBase) 0,
      Thread_KstackLimit = or_zero (GetHex (Kparams e) kparams_KstackLimit) 0,
      Thread_IOPrio = or_zero (GetUint8 (Kparams e) kparams_IOPrio) 0,
      Thread_BasePrio = or_zero (GetUint8 (Kparams e) kparams_BasePrio) 0,
      Thread_PagePrio = or_zero (GetUint8 (Kparams e) kparams_PagePrio) 0,
      Thread_Entrypoint = or_zero (GetHex (Kparams e) kparams_StartAddr) 0\<rparr>"

definition newModule :: "Kevent \<Rightarrow> Module" where
  "newModule e =
     \<lparr>Module_Size = or_zero (GetUint32 (Kparams e) kparams_ImageSize) 0,
      Module_Checksum = or_zero (GetUint32 (Kparams e) kparams_ImageCheckSum) 0,
      Module_Name = or_zero (GetString (Kparams e) kparams_ImageFilename) [],
      Module_BaseAddress = or_zero (GetHex (Kparams e) kparams_ImageBase) 0,
      Module_DefaultBaseAddress = or_zero (GetHex (Kparams e) kparams_ImageDefaultBase) 0\<rparr>"

text \<open>
  \<open>WriteFromKcap\<close>. The result is \<open>None\<close> when \<open>MustGetUint32\<close> panics, and else
  the returned error and the snapshotter.
\<close>

definition snapshotter_WriteFromKcap ::
  "snapshotter_env \<Rightarrow> snapshotter \<Rightarrow> Kevent \<Rightarrow> (error option \<times> snapshotter) option" where
  "snapshotter_WriteFromKcap env s e =
     (if Type e = CreateProcess \<or> Type e = ProcessRundown then
        (case PS e of
           None \<Rightarrow> Some (None, s)
         | Some proc \<Rightarrow>
        (case GetPid (Kparams e) of
           Inl err \<Rightarrow> Some (Some err, s)
         | Inr pid \<Rightarrow>
        (case GetPpid (Kparams e) of
           Inl err \<Rightarrow> Some (Some err, s)
         | Inr ppid \<Rightarrow>
             if Type e = ProcessRundown then
               (if PS_PID (store s proc) = PS_Ppid (store s proc) then Some (None, s)
                else
                  (let s1 = s\<lparr>procs := AList.update pid proc (procs s)\<rparr>
                   in Some (None, set_Parent s1 proc (map_of (procs s1) ppid))))
             else
               (case MustGetUint32 (Kparams e) kparams_SessionID of
                  None \<Rightarrow> None
                | Some sessionID \<Rightarrow>
                    (case alloc s
                            (NewProc pid ppid
                               (GetParamAsString (param_String env) e kparams_ProcessName)
                               (GetParamAsString (param_String env) e kparams_Cmdline)
                               (GetParamAsString (param_String env) e kparams_Exe)
                               (GetParamAsString (param_String env) e kparams_UserSID)
                               (ucast sessionID)) of
                       (ps, s0) \<Rightarrow>
                         (let s1 = s0\<lparr>procs := AList.update pid ps (procs s0)\<rparr>
                          in Some (None, set_Parent s1 proc (map_of (procs s1) ppid))))))))
      else if Type e = CreateThread \<or> Type e = ThreadRundown then
        (case GetPid (Kparams e) of
           Inl err \<Rightarrow> Some (Some err, s)
         | Inr pid \<Rightarrow>
             (let s1 = s\<lparr>threadCount := threadCount s + 1\<rparr>
              in case map_of (procs s1) pid of
                   Some ps \<Rightarrow>
                     Some (None,
                           s1\<lparr>store := (store s1)(ps := AddThread (store s1 ps) (newThread e))\<rparr>)
                 | None \<Rightarrow> Some (None, s1)))
      else if Type e = LoadImage \<or> Type e = ImageRundown then
        (case GetPid (Kparams e) of
           Inl err \<Rightarrow> Some (Some err, s)
         | Inr pid \<Rightarrow>
             (let s1 = s\<lparr>moduleCount := moduleCount s + 1\<rparr>
              in case map_of (procs s1) pid of
                   None \<Rightarrow> Some (None, s1)
                 | Some ps \<Rightarrow>
                     Some (None,
                           s1\<lparr>store := (store s1)(ps := AddModule (store s1 ps) (newModule e))\<rparr>)))
      else Some (None, s))"

text \<open>
  \<open>initProc\<close>: \<open>None\<close> when \<open>MustGetUint32\<close> panics, and else the pointer to the
  new record, the returned error, and the snapshotter.
\<close>

definition snapshotter_initProc ::
  "snapshotter_env \<Rightarrow> snapshotter \<Rightarrow> 32 word \<Rightarrow> 32 word \<Rightarrow> Kevent
     \<Rightarrow> (addr \<times> error option \<times> snapshotter) option" where
  "snapshotter_initProc env s pid ppid e =
     (case MustGetUint32 (Kparams e) kparams_SessionID of
        None \<Rightarrow> None
      | Some sessionID \<Rightarrow>
          (case alloc s
                  (NewProc pid ppid
                     (GetParamAsString (param_String env) e kparams_ProcessName)
                     (GetParamAsString (param_String env) e kparams_Cmdline)
                     (GetParamAsString (param_String env) e kparams_Exe)
                     (GetParamAsString (param_String env) e kparams_UserSID)
                     (ucast sessionID)) of
             (proc, s0) \<Rightarrow>
               (case pe_Read env (PS_Exe (store s0 proc)) of
                  (pe, err) \<Rightarrow>
                    (let s1 = s0\<lparr>store := (store s0)(proc := (store s0 proc)\<lparr>PS_PE := pe\<rparr>)\<rparr>
                     in if err \<noteq> None then Some (proc, err, s1)
                        else
                          (case hsnap_FindHandles env pid of
                             (handles, err) \<Rightarrow>
                               (let s2 = s1\<lparr>store := (store s1)
                                           (proc := (store s1 proc)\<lparr>PS_Handles := handles\<rparr>)\<rparr>
                                in if err \<noteq> None then Some (proc, err, s2)
                                   else
                                     (case windows_OpenProcess env
                                             (or PROCESS_QUERY_INFORMATION PROCESS_VM_READ) pid of
                                        Inl err \<Rightarrow> Some (proc, None, s2)
                                      | Inr process \<Rightarrow>
                                          (case ReadPEB env process of
                                             Inl err \<Rightarrow>
                                               Some (proc, Some err,
                                                     s2\<lparr>pebReadErrors := pebReadErrors s2 + 1\<rparr>)
                                           | Inr peb \<Rightarrow>
                                               Some (proc, None,
                                                     s2\<lparr>store := (store s2)
                                                          (proc := (store s2 proc)
                                                             \<lparr>PS_Envs := GetEnvs peb,
                                                              PS_Cwd :=
                                                                GetCurrentWorkingDirectory peb\<rparr>)\<rparr>)))))))))"

text \<open>
  \<open>Write\<close>: \<open>None\<close> when \<open>initProc\<close> panics, and else the returned error, the
  snapshotter, and the event with its field \<open>PS\<close> as \<open>Write\<close> leaves it.
\<close>

definition snapshotter_Write ::
  "snapshotter_env \<Rightarrow> snapshotter \<Rightarrow> Kevent \<Rightarrow> (error option \<times> snapshotter \<times> Kevent) option" where
  "snapshotter_Write env s e =
     (let s1 = s\<lparr>processCount := processCount s + 1\<rparr>
      in case GetPid (Kparams e) of
           Inl err \<Rightarrow> Some (Some err, s1, e)
         | Inr pid \<Rightarrow>
        (case GetPpid (Kparams e) of
           Inl err \<Rightarrow> Some (Some err, s1, e)
         | Inr ppid \<Rightarrow>
        (case snapshotter_initProc env s1 pid ppid e of
           None \<Rightarrow> None
         | Some (proc, err, s2) \<Rightarrow>
             (let s3 = s2\<lparr>procs := AList.update pid proc (procs s2)\<rparr>;
                  s4 = set_Parent s3 proc (map_of (procs s3) ppid);
                  e' = (if IsCreateProcess e then e\<lparr>PS := map_of (procs s4) (PID e)\<rparr>
                        else e\<lparr>PS := Some proc\<rparr>)
              in Some (err, s4, e')))))"

text \<open>
  One tick of the reaper. The loop ranges over the PIDs of the index and deletes the
  current one when the process can be opened and is not running.
\<close>

fun gcDeadProcesses_loop :: "snapshotter_env \<Rightarrow> 32 word list \<Rightarrow> snapshotter \<Rightarrow> snapshotter" where
  "gcDeadProcesses_loop env [] s = s"
| "gcDeadProcesses_loop env (pid # pids) s =
     (case windows_OpenProcess env PROCESS_QUERY_LIMITED_INFORMATION pid of
        Inl err \<Rightarrow> gcDeadProcesses_loop env pids s
      | Inr proc \<Rightarrow>
          gcDeadProcesses_loop env pids
            (if \<not> zsyscall_IsProcessRunning env proc
             then s\<lparr>procs := AList.delete pid (procs s)\<rparr> else s))"

definition gcDeadProcesses_tick :: "snapshotter_env \<Rightarrow> snapshotter \<Rightarrow> snapshotter" where
  "gcDeadProcesses_tick env s =
     (let ss = length (procs s);
          s1 = gcDeadProcesses_loop env (map fst (procs s)) s
      in if ss > length (procs s1)
         then s1\<lparr>reapedProcesses := reapedProcesses s1 + int (ss - length (procs s1))\<rparr>
         else s1)"

text \<open>
  \<open>Remove\<close>. The loop ranges over the index, from which the PID has been deleted; the
  map does not change during the loop, so \<open>s.procs[procID]\<close> is the pointer \<open>proc\<close>
  of the current pair.
\<close>

fun snapshotter_Remove_loop :: "32 word \<Rightarrow> (32 word \<times> addr) list \<Rightarrow> snapshotter \<Rightarrow> snapshotter" where
  "snapshotter_Remove_loop pid [] s = s"
| "snapshotter_Remove_loop pid ((procID, proc) # rest) s =
     snapshotter_Remove_loop pid rest
       (if PS_Ppid (store s proc) = pid then set_Parent s proc None else s)"

definition snapshotter_Remove :: "snapshotter \<Rightarrow> Kevent \<Rightarrow> error option \<times> snapshotter" where
  "snapshotter_Remove s e =
     (case GetPid (Kparams e) of
        Inl err \<Rightarrow> (Some err, s)
      | Inr pid \<Rightarrow>
          (let s1 = s\<lparr>procs := AList.delete pid (procs s),
                       processCount := processCount s - 1\<rparr>
           in (None, snapshotter_Remove_loop pid (procs s1) s1)))"

definition snapshotter_Size :: "snapshotter \<Rightarrow> 32 word" where
  "snapshotter_Size s = of_nat (length (procs s))"

text \<open>
  Whether the reaper finds the process dead: it can be opened with limited-information
  rights and is reported as not running.
\<close>

definition reaped :: "snapshotter_env \<Rightarrow> 32 word \<Rightarrow> bool" where
  "reaped env pid =
     (case windows_OpenProcess env PROCESS_QUERY_LIMITED_INFORMATION pid of
        Inl err \<Rightarrow> False
      | Inr proc \<Rightarrow> \<not> zsyscall_IsProcessRunning env proc)"

section \<open>Test fixtures of the snapshotter\<close>

text \<open>
  A process event with the parameters of a process: PID, parent PID, session 1, name
  and executable path; it carries the pointer \<open>ps\<close> to a process record.
\<close>

definition ps_event :: "ktype \<Rightarrow> 32 word \<Rightarrow> 32 word \<Rightarrow> string \<Rightarrow> addr option \<Rightarrow> Kevent" where
  "ps_event t pid ppid name ps =
     \<lparr>Seq = 0, PID = ppid, Tid = 1, Type = t, Category = Process, Timestamp = 0, PS = ps,
      Kparams =
        [kparams_ProcessID \<mapsto> \<lparr>ktag = kparams_PID, kval = VUint32 pid\<rparr>,
         kparams_ProcessParentID \<mapsto> \<lparr>ktag = kparams_PID, kval = VUint32 ppid\<rparr>,
         kparams_SessionID \<mapsto> \<lparr>ktag = kparams_Uint32, kval = VUint32 1\<rparr>,
         kparams_ProcessName \<mapsto> \<lparr>ktag = kparams_AnsiString, kval = VString name\<rparr>,
         kparams_Exe \<mapsto> \<lparr>ktag = kparams_FilePath, kval = VString name\<rparr>]\<rparr>"

text \<open>
  A snapshotter with three records: the process 4 at address 0, its child 100 at
  address 1, and the child 200 of 100 at address 2.
\<close>

definition test_snapshotter :: "bool \<Rightarrow> snapshotter" where
  "test_snapshotter cap =
     \<lparr>procs = [(4, 0), (100, 1), (200, 2)],
      store = (\<lambda>a. NewProc 0 0 [] [] [] [] 0)
        (0 := NewProc 4 0 ''System'' [] [] [] 0,
         1 := (NewProc 100 4 ''svchost.exe'' [] [] [] 0)\<lparr>PS_Parent := Some 0\<rparr>,
         2 := (NewProc 200 100 ''cmd.exe'' [] [] [] 1)\<lparr>PS_Parent := Some 1\<rparr>),
      brk = 3, snap_capture = cap, processCount = 3, threadCount = 0, moduleCount = 0,
      reapedProcesses = 0, pebReadErrors = 0\<rparr>"

text \<open>
  An operating system in which the process 4 cannot be opened, the process 100 is
  running and every other process has ended, the PE reader fails when \<open>pe_fails\<close>,
  and no process environment block can be read.
\<close>

definition test_snapshotter_env :: "bool \<Rightarrow> snapshotter_env" where
  "test_snapshotter_env pe_fails =
     \<lparr>pe_Read = (\<lambda>exe. (None, if pe_fails then Some (Errno 2) else None)),
      hsnap_FindHandles = (\<lambda>pid. ([], None)),
      windows_OpenProcess = (\<lambda>access pid. if pid = 4 then Inl (Errno 5) else Inr (ucast pid)),
      ReadPEB = (\<lambda>process. Inl (Errno 299)),
      zsyscall_IsProcessRunning = (\<lambda>process. process = 100),
      param_String = (\<lambda>v. [])\<rparr>"

text \<open>
  A snapshotter in replay mode that knows the process 4, at address 0. The store also
  holds the records that events read from the capture carry: at address 1 the idle
  process, whose PID and parent PID are both 0, and at address 2 the process 100.
\<close>

definition kcap_snapshotter :: snapshotter where
  "kcap_snapshotter =
     \<lparr>procs = [(4, 0)],
      store = (\<lambda>a. NewProc 0 0 [] [] [] [] 0)
        (0 := NewProc 4 0 ''System'' [] [] [] 0,
         1 := NewProc 0 0 ''Idle'' [] [] [] 0,
         2 := NewProc 100 4 ''svchost.exe'' [] [] [] 0),
      brk = 3, snap_capture = True, processCount = 0, threadCount = 0, moduleCount = 0,
      reapedProcesses = 0, pebReadErrors = 0\<rparr>"

definition kcap_CreateProcess :: Kevent where
  "kcap_CreateProcess = ps_event CreateProcess 300 4 ''calc.exe'' (Some 0)"

definition kcap_env :: snapshotter_env where
  "kcap_env = test_snapshotter_env False"

text \<open>
  The error that \<open>initProc\<close> returns: the error of the PE reader, or else the error of
  \<open>FindHandles\<close>, or else none when the process cannot be opened, or else the error
  of \<open>ReadPEB\<close>.
\<close>

definition initProc_error :: "snapshotter_env \<Rightarrow> 32 word \<Rightarrow> Kevent \<Rightarrow> error option" where
  "initProc_error env pid e =
     (if snd (pe_Read env (GetParamAsString (param_String env) e kparams_Exe)) \<noteq> None
      then snd (pe_Read env (GetParamAsString (param_String env) e kparams_Exe))
      else if snd (hsnap_FindHandles env pid) \<noteq> None then snd (hsnap_FindHandles env pid)
      else
        (case windows_OpenProcess env (or PROCESS_QUERY_INFORMATION PROCESS_VM_READ) pid of
           Inl err \<Rightarrow> None
         | Inr process \<Rightarrow>
             (case ReadPEB env process of Inl err \<Rightarrow> Some err | Inr peb \<Rightarrow> None)))"

text \<open>
  A rundown of the process 300 whose PID and parent PID are readable and whose session
  id is missing.
\<close>

definition no_session_event :: Kevent where
  "no_session_event =
     (ps_event ProcessRundown 300 4 ''calc.exe'' None)
       \<lparr>Kparams := Remove (Kparams (ps_event ProcessRundown 300 4 ''calc.exe'' None))
                     kparams_SessionID\<rparr>"

section \<open>Deadlock-safe handle-name resolver\<close>

text \<open>
  The calls that \<open>GetHandleWithTimeout\<close> makes into the operating system, in the order
  in which it makes them.
\<close>

datatype syscall =
    SysResetEvent "64 word"
  | SysCreateThread
  | SysSetEvent "64 word"
  | SysWaitForSingleObject "64 word" "32 word"
  | SysTerminateThread "64 word"
  | SysCloseHandle "64 word"

text \<open>
  The answers of the operating system: the error of \<open>ResetEvent\<close> and of \<open>SetEvent\<close>
  on an event, the handle that \<open>CreateThread\<close> returns (zero when it fails) and the
  last error, the status and the error of \<open>WaitForSingleObject\<close> on a handle with a
  timeout, the error of \<open>TerminateThread\<close>, and the name that the worker thread has
  left in \<open>objectNameInCallback\<close> by the time it signals completion.
\<close>

record resolver_os =
  windows_ResetEvent :: "64 word \<Rightarrow> error option"
  zsyscall_CreateThread :: "64 word"
  windows_GetLastError :: error
  windows_SetEvent :: "64 word \<Rightarrow> error option"
  windows_WaitForSingleObject :: "64 word \<Rightarrow> 32 word \<Rightarrow> 32 word \<times> error option"
  zsyscall_TerminateThread :: "64 word \<Rightarrow> error option"
  worker_objectName :: string

text \<open>
  The package variables of the resolver, the counter \<open>handle.wait.timeouts\<close>, and the
  calls made so far.
\<close>

record resolver =
  thread :: "64 word"
  rawHandle :: "64 word option"
  ini :: "64 word"
  done_event :: "64 word"
  objectNameInCallback :: string
  waitTimeoutCounts :: int
  syscalls :: "syscall list"

definition WAIT_OBJECT_0 :: "32 word" where
  "WAIT_OBJECT_0 = 0"

definition WAIT_TIMEOUT :: error where
  "WAIT_TIMEOUT = Errno 258"

definition called :: "resolver \<Rightarrow> syscall list \<Rightarrow> resolver" where
  "called r cs = r\<lparr>syscalls := syscalls r @ cs\<rparr>"

text \<open>
  The first block of \<open>GetHandleWithTimeout\<close>, which spawns the worker thread when the
  thread slot is empty: the early return, or the resolver to go on with.
\<close>

definition spawnWorker ::
  "resolver_os \<Rightarrow> resolver \<Rightarrow> ((string \<times> error option) \<times> resolver) + resolver" where
  "spawnWorker os r =
     (if thread r = 0 then
        (case windows_ResetEvent os (ini r) of
           Some err \<Rightarrow>
             Inl (([], Some (Errorf ''couldn't reset init event: %v'' [] [err])),
                  called r [SysResetEvent (ini r)])
         | None \<Rightarrow>
        (case windows_ResetEvent os (done_event r) of
           Some err \<Rightarrow>
             Inl (([], Some (Errorf ''couldn't reset done event: %v'' [] [err])),
                  called r [SysResetEvent (ini r), SysResetEvent (done_event r)])
         | None \<Rightarrow>
             (let r1 = (called r [SysResetEvent (ini r), SysResetEvent (done_event r),
                                  SysCreateThread])
                          \<lparr>thread := zsyscall_CreateThread os\<rparr>
              in if thread r1 = 0
                 then Inl (([], Some (Errorf ''cannot create handle query thread: %v'' []
                                        [windows_GetLastError os])), r1)
                 else Inr r1)))
      else Inr r)"

definition GetHandleWithTimeout ::
  "resolver_os \<Rightarrow> resolver \<Rightarrow> 64 word \<Rightarrow> 32 word \<Rightarrow> (string \<times> error option) \<times> resolver" where
  "GetHandleWithTimeout os r handle timeout =
     (case spawnWorker os r of
        Inl ret \<Rightarrow> ret
      | Inr r1 \<Rightarrow>
          (let r2 = r1\<lparr>rawHandle := Some handle\<rparr> in
           case windows_SetEvent os (ini r2) of
             Some err \<Rightarrow> (([], Some err), called r2 [SysSetEvent (ini r2)])
           | None \<Rightarrow>
               (case windows_WaitForSingleObject os (done_event r2) timeout of
                  (s, err) \<Rightarrow>
                    (let r3 = called r2 [SysSetEvent (ini r2),
                                         SysWaitForSingleObject (done_event r2) timeout]
                     in if s = WAIT_OBJECT_0
                        then ((worker_objectName os, None),
                              r3\<lparr>objectNameInCallback := worker_objectName os\<rparr>)
                        else if err = Some WAIT_TIMEOUT then
                          (let r4 = r3\<lparr>waitTimeoutCounts := waitTimeoutCounts r3 + 1\<rparr> in
                           case zsyscall_TerminateThread os (thread r4) of
                             Some err \<Rightarrow>
                               (([], Some (Errorf ''unable to terminate timeout thread: %v'' []
                                             [err])),
                                called r4 [SysTerminateThread (thread r4)])
                           | None \<Rightarrow>
                               (case snd (windows_WaitForSingleObject os (thread r4) timeout) of
                                  Some err \<Rightarrow>
                                    (([], Some (Errorf
                                         ''failed awaiting timeout thread termination: %v'' []
                                         [err])),
                                     called r4 [SysTerminateThread (thread r4),
                                                SysWaitForSingleObject (thread r4) timeout])
                                | None \<Rightarrow>
                                    (([], Some (Errorf
                                         ''couldn't resolve handle name due to timeout'' [] [])),
                                     (called r4 [SysTerminateThread (thread r4),
                                                 SysWaitForSingleObject (thread r4) timeout,
                                                 SysCloseHandle (thread r4)])
                                       \<lparr>thread := 0\<rparr>)))
                        else (([], None), r3)))))"

text \<open>
  \<open>windows.WaitForSingleObject\<close> of golang.org/x/sys/windows returns the status of
  the wait and sets the error only when that status is \<open>WAIT_FAILED\<close>; a wait that
  times out has the status 258 and no error. \<open>wait_contract\<close> says that the answers
  of the operating system are of this kind.
\<close>

definition WAIT_FAILED :: "32 word" where
  "WAIT_FAILED = 0xFFFFFFFF"

definition WAIT_TIMEOUT_status :: "32 word" where
  "WAIT_TIMEOUT_status = 258"

definition wait_contract :: "resolver_os \<Rightarrow> bool" where
  "wait_contract os =
     (\<forall>h timeout. snd (windows_WaitForSingleObject os h timeout) \<noteq> None \<longrightarrow>
                  fst (windows_WaitForSingleObject os h timeout) = WAIT_FAILED)"

text \<open>
  The worker thread \<open>0x50\<close> waits on a handle that never answers: the wait on the
  event \<open>done\<close> times out, with the status 258 and no error. Every other wait and
  every other call succeeds.
\<close>

definition test_resolver_os :: resolver_os where
  "test_resolver_os =
     \<lparr>windows_ResetEvent = (\<lambda>h. None),
      zsyscall_CreateThread = 0x60,
      windows_GetLastError = Errno 0,
      windows_SetEvent = (\<lambda>h. None),
      windows_WaitForSingleObject =
        (\<lambda>h timeout. if h = 0x20 then (WAIT_TIMEOUT_status, None) else (0, None)),
      zsyscall_TerminateThread = (\<lambda>h. None),
      worker_objectName = []\<rparr>"

definition test_resolver :: resolver where
  "test_resolver =
     \<lparr>thread = 0x50, rawHandle = None, ini = 0x10, done_event = 0x20,
      objectNameInCallback = [], waitTimeoutCounts = 0, syscalls = []\<rparr>"

section \<open>Properties of the processor chain\<close>

lemma chain_ProcessEvent_loop_walk:
  "chain_ProcessEvent_loop ps kevt outp es w pf =
     (let rs = spec_walk ps w kevt;
          collected = es @ spec_collect rs;
          output' = (if rs = [] then outp else r_output (snd (last rs)));
          kevt' = (if rs = [] then kevt else r_kevt (snd (last rs)));
          w' = (if rs = [] then w else r_state (snd (last rs)));
          pf' = pf + int (length (spec_collect rs))
      in if rs \<noteq> [] \<and> r_cancels (snd (last rs))
         then ((output', r_err (snd (last rs))), kevt', w', pf')
         else ((output', if collected = [] then None else Some (MultiError collected)),
               kevt', w', pf'))"
proof (induction ps arbitrary: kevt outp es w pf)
  case Nil
  then show ?case by (simp add: multierror_Wrap_def)
next
  case (Cons p ps)
  obtain k' out nx er w' where r: "ProcessEvent p w kevt = ((k', out, nx, er), w')"
    by (cases "ProcessEvent p w kevt") auto
  show ?case
  proof (cases er)
    case None
    show ?thesis
    proof (cases nx)
      case True
      with None r Cons.IH [of k' out es w' pf] show ?thesis
        by (simp add: Let_def r_stops_def r_err_def r_next_def r_state_def r_kevt_def
            r_output_def r_cancels_def)
    next
      case False
      with None r show ?thesis
        by (simp add: Let_def r_stops_def r_err_def r_next_def r_state_def r_kevt_def
            r_output_def r_cancels_def multierror_Wrap_def)
    qed
  next
    case (Some e)
    show ?thesis
    proof (cases "IsCancelUpstreamKevent e")
      case True
      with Some r show ?thesis
        by (simp add: Let_def r_stops_def r_err_def r_next_def r_state_def r_kevt_def
            r_output_def r_cancels_def)
    next
      case False
      with Some r
        Cons.IH [of k' out "es @ [Errorf ''%q processor failed with error: %v'' [Name p] [e]]"
          w' "pf + 1"]
      show ?thesis
        by (simp add: Let_def r_stops_def r_err_def r_next_def r_state_def r_kevt_def
            r_output_def r_cancels_def)
    qed
  qed
qed

text \<open>
  C4. \<open>chain.ProcessEvent\<close> is the walk of the specification: a processor that fails
  with an error other than the sentinel is passed over and the next one runs, the errors
  collected on the way are merged into one \<open>MultiError\<close> returned with the event of
  the last processor that ran, and the walk ends at the first processor that returns the
  cancel-upstream sentinel, whose error and event are returned as they are.
\<close>

theorem chain_ProcessEvent_collects_and_cancels:
  "chain_ProcessEvent c kevt w pf = spec_ProcessEvent c kevt w pf"
  unfolding chain_ProcessEvent_def spec_ProcessEvent_def
  by (simp add: chain_ProcessEvent_loop_walk Let_def)

theorem chain_ProcessEvent_collects_and_cancels_witness:
  "chain_ProcessEvent
     \<lparr>processors = [stub_processor ''a'' False (Some (Errno 5)), stub_processor ''b'' True None,
        stub_processor ''c'' False (Some (Errno 6)), stub_processor ''d'' False None,
        stub_processor ''e'' True None]\<rparr> stub_event [] 0
   = ((Some stub_event,
       Some (MultiError
         [Errorf ''%q processor failed with error: %v'' [''a''] [Errno 5],
          Errorf ''%q processor failed with error: %v'' [''c''] [Errno 6]])),
      stub_event, [''a'', ''b'', ''c'', ''d''], 2)
   \<and> chain_ProcessEvent
     \<lparr>processors = [stub_processor ''a'' False (Some (Errno 5)), stub_processor ''b'' True None,
        stub_processor ''c'' True (Some ErrCancelUpstreamKevent),
        stub_processor ''d'' False None]\<rparr> stub_event [] 0
   = ((Some stub_event, Some ErrCancelUpstreamKevent), stub_event, [''a'', ''b'', ''c''], 1)"
  using chain_ProcessEvent_collects_and_cancels
    [of "\<lparr>processors = [stub_processor ''a'' False (Some (Errno 5)),
        stub_processor ''b'' True None, stub_processor ''c'' False (Some (Errno 6)),
        stub_processor ''d'' False None, stub_processor ''e'' True None]\<rparr>" stub_event "[]" 0]
    chain_ProcessEvent_collects_and_cancels
    [of "\<lparr>processors = [stub_processor ''a'' False (Some (Errno 5)),
        stub_processor ''b'' True None, stub_processor ''c'' True (Some ErrCancelUpstreamKevent),
        stub_processor ''d'' False None]\<rparr>" stub_event "[]" 0]
  by (simp add: spec_ProcessEvent_def stub_processor_def Let_def r_stops_def r_err_def r_next_def
      r_state_def r_kevt_def r_output_def r_cancels_def IsCancelUpstreamKevent_def)

lemma processors_foldl_addProcessor:
  "processors (foldl chain_addProcessor c ps) = processors c @ List.map_filter (\<lambda>p. p) ps"
  by (induction ps arbitrary: c)
    (auto simp: chain_addProcessor_def List.map_filter_simps split: option.splits)

lemma chain_Close_loop_foldl: "chain_Close_loop ps w = foldl (\<lambda>w p. Close p w) w ps"
  by (induction ps arbitrary: w) auto

text \<open>
  C9, as the code has it. \<open>Close\<close> of a chain built by registering the processors
  \<open>ps\<close> with \<open>addProcessor\<close> (a nil processor is not registered) closes every registered
  processor once, the one registered first being closed first, and returns no error.
  \<open>Processor.Close\<close> has no result, so no failure can reach the chain.
\<close>

theorem chain_Close_registration_order:
  "chain_Close (foldl chain_addProcessor empty_chain ps) w =
     (None, foldl (\<lambda>w p. Close p w) w (List.map_filter (\<lambda>p. p) ps))"
  by (simp add: chain_Close_def processors_foldl_addProcessor chain_Close_loop_foldl
      empty_chain_def)

theorem chain_Close_registration_order_witness:
  "chain_Close
     (chain_addProcessor
        (chain_addProcessor
           (chain_addProcessor empty_chain (Some (stub_processor ''ps'' True None))) None)
        (Some (stub_processor ''handle'' True None))) []
   = (None, [''ps'', ''handle''])"
  using chain_Close_registration_order
    [of "[Some (stub_processor ''ps'' True None), None,
          Some (stub_processor ''handle'' True None)]" "[]"]
  by (simp add: List.map_filter_simps stub_processor_def)

text \<open>
  C9, as the specification has it, fails: with the processors \<open>ps\<close> and \<open>handle\<close>
  registered in this order, \<open>Close\<close> closes \<open>ps\<close> before \<open>handle\<close>, which is not
  what closing in the reverse order of registration gives.
\<close>

theorem chain_Close_reverse_order_counterexample:
  "snd (chain_Close two_stub_chain []) = [''ps'', ''handle'']
   \<and> snd (chain_Close two_stub_chain []) \<noteq> chain_Close_loop (rev (processors two_stub_chain)) []"
  by (simp add: chain_Close_def two_stub_chain_def chain_addProcessor_def empty_chain_def
      stub_processor_def)
section \<open>Properties of the trace consumer\<close>

text \<open>
  C1, as the code has it. An event whose PID is the agent's own PID is never delivered:
  \<open>publishEvent\<close> returns no error, sends nothing on the channel, does not call the
  event callback, and leaves \<open>keventsEnqueued\<close>, the sequencer and \<open>excludedKevents\<close>
  as they were. The image filter runs before the self filter, so \<open>excludedProcs\<close> is
  unchanged when the image of the process is not excluded and grows by one when it is.
\<close>

theorem publishEvent_own_pid_dropped:
  assumes "PID e = currentPid env"
  shows "fst (publishEvent env k e) = None
    \<and> kevts (snd (publishEvent env k e)) = kevts k
    \<and> callbackCalls (snd (publishEvent env k e)) = callbackCalls k
    \<and> keventsEnqueued (snd (publishEvent env k e)) = keventsEnqueued k
    \<and> sequencer (snd (publishEvent env k e)) = sequencer k
    \<and> excludedKevents (snd (publishEvent env k e)) = excludedKevents k
    \<and> excludedProcs (snd (publishEvent env k e)) =
        (if ExcludeImage env (snd (psnapshotter_Find env (world k) (PID e)))
              (fst (psnapshotter_Find env (world k) (PID e)))
         then excludedProcs k + 1 else excludedProcs k)"
  using assms
  by (simp add: publishEvent_def isEventDropped_def CurrentPid_def Release_def Let_def
      split: prod.splits)

theorem publishEvent_own_pid_dropped_witness:
  "PID (process_event CreateProcess 4242)
     = currentPid (plain_env)
   \<and> publishEvent (plain_env)
        (NewConsumer [] False) (process_event CreateProcess 4242)
     = (None, (NewConsumer [] False)
          \<lparr>released := [(process_event CreateProcess 4242)\<lparr>PS := None\<rparr>]\<rparr>)
   \<and> excludedProcs (snd (publishEvent
        (plain_env)
        (NewConsumer [] False) (process_event CreateProcess 4242))) = 0"
  using publishEvent_own_pid_dropped
    [of "process_event CreateProcess 4242"
        "plain_env" "NewConsumer [] False"]
  by (simp add: publishEvent_def isEventDropped_def CurrentPid_def Release_def Let_def
      test_kstream_env_def agent_excluded_env_def capture_env_def plain_env_def process_event_def NewConsumer_def)

text \<open>
  C1, as the specification has it, fails: when the image of the agent's own process is
  excluded, the event of the agent is dropped by the image filter, which counts it in
  \<open>excludedProcs\<close>.
\<close>

theorem publishEvent_own_pid_counted_counterexample:
  "PID (process_event CreateProcess 4242)
     = currentPid (agent_excluded_env)
   \<and> excludedProcs (NewConsumer [] False) = 0
   \<and> excludedProcs (snd (publishEvent
        (agent_excluded_env)
        (NewConsumer [] False) (process_event CreateProcess 4242))) = 1"
  by (simp add: publishEvent_def Release_def Let_def test_kstream_env_def agent_excluded_env_def capture_env_def plain_env_def process_event_def
      NewConsumer_def)

lemma keeps_Seq_step:
  assumes "keeps_Seq p" and "ProcessEvent p w e = ((k1, o1, nx, e1), w1)"
  shows "Seq k1 = Seq e \<and> has_Seq (Seq e) o1"
proof -
  from assms(1) have "Seq (r_kevt (ProcessEvent p w e)) = Seq e \<and>
      (\<forall>out. r_output (ProcessEvent p w e) = Some out \<longrightarrow> Seq out = Seq e)"
    unfolding keeps_Seq_def by simp
  with assms(2) show ?thesis
    by (cases o1) (simp_all add: r_kevt_def r_output_def has_Seq_def)
qed

lemma chain_loop_keeps_Seq:
  "\<forall>p\<in>set ps. keeps_Seq p \<Longrightarrow> has_Seq s outp \<Longrightarrow> Seq kevt = s \<Longrightarrow>
   has_Seq s (fst (fst (chain_ProcessEvent_loop ps kevt outp es w pf)))"
proof (induction ps arbitrary: kevt outp es w pf)
  case Nil
  then show ?case by simp
next
  case (Cons p ps)
  obtain k1 o1 nx e1 w1 where r: "ProcessEvent p w kevt = ((k1, o1, nx, e1), w1)"
    by (cases "ProcessEvent p w kevt") auto
  from Cons.prems(1) have kp: "keeps_Seq p" and kps: "\<forall>p\<in>set ps. keeps_Seq p" by simp_all
  from keeps_Seq_step [OF kp r] Cons.prems(3)
  have s1: "Seq k1 = s" and s2: "has_Seq s o1" by simp_all
  note ih = Cons.IH [OF kps s2 s1]
  show ?case
  proof (cases e1)
    case None
    with r s2 ih [of es w1 pf] show ?thesis by simp
  next
    case (Some e)
    with r s2 ih [of "es @ [Errorf ''%q processor failed with error: %v'' [Name p] [e]]" w1 "pf + 1"]
    show ?thesis by simp
  qed
qed



lemma isEventDropped_same:
  "kevts (snd (isEventDropped env k e)) = kevts k
   \<and> callbackCalls (snd (isEventDropped env k e)) = callbackCalls k
   \<and> sequencer (snd (isEventDropped env k e)) = sequencer k
   \<and> eventCallback (snd (isEventDropped env k e)) = eventCallback k"
  unfolding isEventDropped_def
  by (cases "kfilter k") simp_all

lemma publishEvent_steps:
  "publishEvent env k e =
     (case publishAdmit env k e of
        (None, k1) \<Rightarrow> (None, k1)
      | (Some e1, k1) \<Rightarrow> publishSend k1 e1)"
proof -
  obtain proc w1 where f: "psnapshotter_Find env (world k) (PID e) = (proc, w1)"
    by (cases "psnapshotter_Find env (world k) (PID e)") auto
  define k1 where "k1 = k\<lparr>world := w1\<rparr>"
  define e1 where "e1 = (if PS e = None then e\<lparr>PS := proc\<rparr> else e)"
  obtain dropped k2 where d: "isEventDropped env k1 e1 = (dropped, k2)"
    by (cases "isEventDropped env k1 e1") auto
  show ?thesis
  proof (cases "ExcludeImage env w1 proc")
    case True
    with f show ?thesis by (simp add: publishEvent_def publishAdmit_def)
  next
    case False
    with f d show ?thesis
      by (cases dropped)
        (simp_all add: publishEvent_def publishAdmit_def publishSend_def Let_def
          k1_def [symmetric] e1_def [symmetric])
  qed
qed



lemma publishAdmit_effect:
  "kevts (snd (publishAdmit env k e)) = kevts k
   \<and> callbackCalls (snd (publishAdmit env k e)) = callbackCalls k
   \<and> eventCallback (snd (publishAdmit env k e)) = eventCallback k
   \<and> (fst (publishAdmit env k e) = None
         \<and> sequencer (snd (publishAdmit env k e)) = sequencer k
       \<or> (\<exists>e1. fst (publishAdmit env k e) = Some e1 \<and> Seq e1 = Seq e
            \<and> sequencer (snd (publishAdmit env k e)) =
                (if IsState env e1 then sequencer k else sequencer k + 1)))"
proof -
  obtain proc w1 where f: "psnapshotter_Find env (world k) (PID e) = (proc, w1)"
    by (cases "psnapshotter_Find env (world k) (PID e)") auto
  define k1 where "k1 = k\<lparr>world := w1\<rparr>"
  define e1 where "e1 = (if PS e = None then e\<lparr>PS := proc\<rparr> else e)"
  obtain dropped k2 where d: "isEventDropped env k1 e1 = (dropped, k2)"
    by (cases "isEventDropped env k1 e1") auto
  have k2: "kevts k2 = kevts k" "callbackCalls k2 = callbackCalls k" "sequencer k2 = sequencer k"
    "eventCallback k2 = eventCallback k"
    using isEventDropped_same [of env k1 e1] d by (simp_all add: k1_def)
  have se: "Seq e1 = Seq e" by (simp add: e1_def)
  show ?thesis
  proof (cases "ExcludeImage env w1 proc")
    case True
    with f show ?thesis by (simp add: publishAdmit_def Release_def)
  next
    case False
    with f d k2 se show ?thesis
      by (cases dropped)
        (simp_all add: publishAdmit_def Release_def Let_def sequencer_Increment_def
          k1_def [symmetric] e1_def [symmetric])
  qed
qed









lemma processEventCallback_steps:
  "processEventCallback env k evt = fst (sessions_run env k [(Idle, [evt])] [] [0, 0, 0])"
proof (cases "kevent_New env (sequencer_Get k) evt")
  case None
  then show ?thesis
    by (simp add: processEventCallback_def processEvent_def decodeStep_def)
next
  case (Some e)
  note new = this
  obtain evts er e' w' pf' where c:
    "chain_ProcessEvent (processors_chain env) e (world k) (processorFailures k) = ((evts, er), e', w', pf')"
    by (cases "chain_ProcessEvent (processors_chain env) e (world k) (processorFailures k)") auto
  define k1 where "k1 = k\<lparr>world := w', processorFailures := pf'\<rparr>"
  show ?thesis
  proof (cases er)
    case (Some x)
    with new c show ?thesis
      by (simp add: processEventCallback_def processEvent_def decodeStep_def Let_def
          recordFailure_def)
  next
    case None
    note noerr = this
    show ?thesis
    proof (cases evts)
      case None
      with noerr new c show ?thesis
        by (simp add: processEventCallback_def processEvent_def decodeStep_def Let_def
            Publish_def)
    next
      case (Some out)
      have pe: "processEvent env k evt = publishEvent env k1 out"
        using Some noerr new c by (simp add: processEvent_def Publish_def k1_def Let_def)
      have ds: "decodeStep env k evt = (Decoded (sequencer_Get k) out, k1)"
        using Some noerr new c by (simp add: decodeStep_def k1_def Let_def)
      obtain r k2 where pa: "publishAdmit env k1 out = (r, k2)"
        by (cases "publishAdmit env k1 out") auto
      show ?thesis
      proof (cases r)
        case None
        with pa pe ds show ?thesis
          by (simp add: processEventCallback_def publishEvent_steps)
      next
        case (Some e1)
        obtain err k3 where ps: "publishSend k2 e1 = (err, k3)"
          by (cases "publishSend k2 e1") auto
        with Some pa pe ds show ?thesis
          by (cases err) (simp_all add: processEventCallback_def publishEvent_steps recordFailure_def)
      qed
    qed
  qed
qed













text \<open>
  When every processor of the chain keeps the sequence number, as the stub processors
  do and the handle processor does not, every delivery carries the number that its call
  read, whatever the sessions and the schedule.
\<close>

lemma decodeStep_stamped:
  assumes "\<forall>p\<in>set (processors (processors_chain env)). keeps_Seq p"
  shows "phase_stamped (fst (decodeStep env k evt))"
proof (cases "kevent_New env (sequencer_Get k) evt")
  case None
  then show ?thesis by (simp add: decodeStep_def)
next
  case (Some e)
  then have se: "Seq e = sequencer k"
    by (auto simp: kevent_New_def sequencer_Get_def)
  obtain evts er e' w' pf' where c:
    "chain_ProcessEvent (processors_chain env) e (world k) (processorFailures k) = ((evts, er), e', w', pf')"
    by (cases "chain_ProcessEvent (processors_chain env) e (world k) (processorFailures k)") auto
  have hs: "has_Seq (sequencer k) evts"
    using chain_loop_keeps_Seq [OF assms, of "sequencer k" None e "[]" "world k" "processorFailures k"] c se
    by (simp add: chain_ProcessEvent_def has_Seq_def)
  show ?thesis
  proof (cases er)
    case (Some x)
    with \<open>kevent_New env (sequencer_Get k) evt = Some e\<close> c show ?thesis
      by (simp add: decodeStep_def Let_def)
  next
    case None
    with \<open>kevent_New env (sequencer_Get k) evt = Some e\<close> c hs show ?thesis
      by (cases evts) (simp_all add: decodeStep_def Let_def sequencer_Get_def has_Seq_def)
  qed
qed

lemma session_step_stamped:
  assumes "\<forall>p\<in>set (processors (processors_chain env)). keeps_Seq p"
    and "phase_stamped (fst s)" and "session_step env k s = (k1, s1, d)"
  shows "phase_stamped (fst s1) \<and> (\<forall>x\<in>set d. carries_stamp x)"
proof -
  obtain ph evts where s: "s = (ph, evts)" by (cases s) auto
  show ?thesis
  proof (cases ph)
    case Idle
    show ?thesis
    proof (cases evts)
      case Nil
      with Idle s assms(3) show ?thesis by auto
    next
      case (Cons evt rest)
      obtain ph1 k' where ds: "decodeStep env k evt = (ph1, k')"
        by (cases "decodeStep env k evt") auto
      with assms(3) s Idle Cons have "s1 = (ph1, rest)" "d = []" by simp_all
      with decodeStep_stamped [OF assms(1), of k evt] ds show ?thesis by simp
    qed
  next
    case (Decoded sq out)
    obtain r k' where pa: "publishAdmit env k out = (r, k')"
      by (cases "publishAdmit env k out") auto
    from assms(2) s Decoded have so: "Seq out = sq" by simp
    show ?thesis
    proof (cases r)
      case None
      with assms(3) s Decoded pa show ?thesis by auto
    next
      case (Some e1)
      with publishAdmit_effect [of env k out] pa have "Seq e1 = Seq out" by simp
      with Some assms(3) s Decoded pa so show ?thesis by auto
    qed
  next
    case (Admitted sq e1)
    obtain err k' where ps: "publishSend k e1 = (err, k')"
      by (cases "publishSend k e1") auto
    with assms(2,3) s Admitted show ?thesis by (auto simp: carries_stamp_def)
  qed
qed

lemma sessions_run_stamped:
  assumes "\<forall>p\<in>set (processors (processors_chain env)). keeps_Seq p"
  shows "\<forall>s\<in>set ss. phase_stamped (fst s) \<Longrightarrow> \<forall>x\<in>set lg. carries_stamp x \<Longrightarrow>
         \<forall>x\<in>set (snd (snd (sessions_run env k ss lg sched))). carries_stamp x"
proof (induction sched arbitrary: k ss lg)
  case Nil
  then show ?case by simp
next
  case (Cons i sched)
  show ?case
  proof (cases "i < length ss")
    case False
    with Cons.IH [OF Cons.prems] show ?thesis by simp
  next
    case True
    obtain k1 s1 d where st: "session_step env k (ss ! i) = (k1, s1, d)"
      by (cases "session_step env k (ss ! i)") auto
    from True Cons.prems(1) have "phase_stamped (fst (ss ! i))" by simp
    from session_step_stamped [OF assms this st]
    have p1: "phase_stamped (fst s1)" and p2: "\<forall>x\<in>set d. carries_stamp x" by simp_all
    have a: "\<forall>s\<in>set (ss[i := s1]). phase_stamped (fst s)"
      using Cons.prems(1) p1 set_update_subset_insert [of ss i s1] by auto
    have b: "\<forall>x\<in>set (lg @ d). carries_stamp x" using Cons.prems(2) p2 by auto
    from Cons.IH [OF a b, of k1] True st show ?thesis by simp
  qed
qed

lemma keeps_Seq_stub_processor: "keeps_Seq (stub_processor n nx er)"
  by (simp add: keeps_Seq_def stub_processor_def r_kevt_def r_output_def)

section \<open>Properties of the handle processor\<close>

lemma SetValue_held:
  "Kparams evt kparams_HandleObjectName = Some p \<Longrightarrow>
   SetValue (Kparams evt) kparams_HandleObjectName (VString name)
     = Inr (Kparams (with_object_name evt name))"
  by (simp add: SetValue_def with_object_name_def)

lemma with_object_name_eq:
  "Kparams evt kparams_HandleObjectName = Some p \<Longrightarrow>
   evt\<lparr>Kparams := Kparams (with_object_name evt name)\<rparr> = with_object_name evt name"
  by (simp add: with_object_name_def)

text \<open>
  C3, as the code has it. Let \<open>e\<close> be an event of the handle category other than
  \<open>CreateHandle\<close> that reached the pairing step with the resolved name \<open>name\<close>, and
  let the pending table hold the event \<open>evt\<close>, which has a \<open>HandleObjectName\<close>
  parameter, under the object pointer of \<open>e\<close>. Then the entry is removed, the counter
  \<open>handle.deferred.matches\<close> grows by exactly one, and the processor returns the held
  event completed with the name (and the \<open>ImageFilename\<close> for a driver) together with
  the result of removing \<open>e\<close> from the handle snapshotter. The one exception: when the
  write of the completed event fails and the removal of \<open>e\<close> that follows fails too,
  the processor returns \<open>e\<close> with that error. So whenever no error is returned, the
  returned event is the completed \<open>CreateHandle\<close>, never \<open>e\<close>.
\<close>

theorem CloseHandle_completes_pending_CreateHandle:
  assumes "Type e \<noteq> CreateHandle"
    and "objects h object = Some evt"
    and "Kparams evt kparams_HandleObjectName = Some p"
  shows "objects (snd (pairHandles env h e object typeName name)) = (objects h)(object := None)
    \<and> handleDeferMatches (snd (pairHandles env h e object typeName name))
        = handleDeferMatches h + 1
    \<and> (case hsnap_Write env (hsnap h) (completed_CreateHandle env evt e typeName name) of
         (werr, hs1) \<Rightarrow>
           (case hsnap_Remove env hs1 e of
              (rerr, hs2) \<Rightarrow>
                fst (pairHandles env h e object typeName name) =
                  (if werr \<noteq> None \<and> rerr \<noteq> None then (e, rerr)
                   else if werr \<noteq> None
                     then (completed_CreateHandle env evt e typeName name,
                           fst (hsnap_Remove env hs2 e))
                   else (completed_CreateHandle env evt e typeName name, rerr))))
    \<and> (snd (fst (pairHandles env h e object typeName name)) = None \<longrightarrow>
         fst (fst (pairHandles env h e object typeName name))
           = completed_CreateHandle env evt e typeName name)"
proof -
  let ?evt2 = "completed_CreateHandle env evt e typeName name"
  obtain werr hs1 where w: "hsnap_Write env (hsnap h) ?evt2 = (werr, hs1)"
    by (cases "hsnap_Write env (hsnap h) ?evt2") auto
  obtain rerr hs2 where r: "hsnap_Remove env hs1 e = (rerr, hs2)"
    by (cases "hsnap_Remove env hs1 e") auto
  obtain rerr2 hs3 where r2: "hsnap_Remove env hs2 e = (rerr2, hs3)"
    by (cases "hsnap_Remove env hs2 e") auto
  have p: "pairHandles env h e object typeName name =
      (case werr of
         Some x \<Rightarrow>
           (case rerr of
              Some err \<Rightarrow>
                ((e, Some err),
                 h\<lparr>objects := (objects h)(object := None),
                    handleDeferMatches := handleDeferMatches h + 1, hsnap := hs2\<rparr>)
            | None \<Rightarrow>
                ((?evt2, rerr2),
                 h\<lparr>objects := (objects h)(object := None),
                    handleDeferMatches := handleDeferMatches h + 1, hsnap := hs3\<rparr>))
       | None \<Rightarrow>
           ((?evt2, rerr),
            h\<lparr>objects := (objects h)(object := None),
               handleDeferMatches := handleDeferMatches h + 1, hsnap := hs2\<rparr>))"
  proof (cases "typeName = handle_Driver")
    case True
    with assms w r r2 show ?thesis
      by (cases werr; cases rerr)
        (simp_all add: pairHandles_def SetValue_held with_object_name_eq Let_def
          completed_CreateHandle_def Append_def)
  next
    case False
    with assms w r r2 show ?thesis
      by (cases werr; cases rerr)
        (simp_all add: pairHandles_def SetValue_held with_object_name_eq Let_def
          completed_CreateHandle_def Append_def)
  qed
  from w r r2 show ?thesis
    by (cases werr; cases rerr) (simp_all add: p)
qed

text \<open>
  The pairing step is reached by every event whose three handle parameters and name are
  readable and whose type name resolves; the lookup of the type name leaves the pending
  table and the counter alone.
\<close>

lemma resolveTypeName_objects:
  "objects (snd (resolveTypeName env h e handleID typeID)) = objects h
   \<and> handleDeferMatches (snd (resolveTypeName env h e handleID typeID)) = handleDeferMatches h"
  by (simp add: resolveTypeName_def Let_def split: sum.splits)

lemma handleProcessor_processEvent_pairs:
  assumes "GetUint32 (Kparams e) kparams_HandleID = Inr handleID"
    and "GetUint16 (Kparams e) kparams_HandleObjectTypeID = Inr typeID"
    and "GetUint64 (Kparams e) kparams_HandleObject = Inr object"
    and "resolveTypeName env h e handleID typeID = (Inr typeName, h1)"
    and "GetString (Kparams e) kparams_HandleObjectName = Inr name0"
    and "canonicalName env typeName name0
           (Remove (Append (Kparams e) kparams_HandleObjectTypeName kparams_AnsiString
              (VString typeName)) kparams_HandleObjectTypeID) = (name, kp)"
    and "SetValue kp kparams_HandleObjectName (VString name) = Inr kp'"
  shows "handleProcessor_processEvent env h e =
     (fst (pairHandles env h1 (e\<lparr>Kparams := kp'\<rparr>) object typeName name),
      e\<lparr>Kparams := kp'\<rparr>,
      snd (pairHandles env h1 (e\<lparr>Kparams := kp'\<rparr>) object typeName name))"
proof -
  have "GetString (Remove (Append (Kparams e) kparams_HandleObjectTypeName kparams_AnsiString
              (VString typeName)) kparams_HandleObjectTypeID) kparams_HandleObjectName
        = Inr name0"
    using assms(5) by (simp add: GetString_def Remove_def Append_def)
  with assms show ?thesis
    by (simp add: handleProcessor_processEvent_def Let_def split: prod.splits)
qed

lemma pending_handleProcessor_objects:
  "\<exists>evt p. objects (pending_handleProcessor (test_handle_env wfail rfail)) 0xabc = Some evt
      \<and> Type evt = CreateHandle
      \<and> Kparams evt kparams_HandleObjectName = Some p \<and> kval p = VString []"
  by (simp add: pending_handleProcessor_def handleProcessor_ProcessEvent_def
      handleProcessor_processEvent_def handle_event_def GetUint32_def GetUint16_def GetUint64_def
      GetString_def resolveTypeName_def FindByID_def test_handleProcessor_def handle_Key_def
      Append_def Remove_def canonicalName_def SetValue_def pairHandles_def Let_def
      test_handle_env_def registry_machine_def)

theorem CloseHandle_completes_pending_CreateHandle_witness:
  "Type close_event \<noteq> CreateHandle
   \<and> objects (pending_handleProcessor (test_handle_env False False)) 0xabc \<noteq> None
   \<and> objects (snd (pairHandles (test_handle_env False False)
        (pending_handleProcessor (test_handle_env False False)) close_event 0xabc handle_Key
        (''HKLM'' @ [backslash] @ software_x))) 0xabc = None
   \<and> handleDeferMatches (snd (pairHandles (test_handle_env False False)
        (pending_handleProcessor (test_handle_env False False)) close_event 0xabc handle_Key
        (''HKLM'' @ [backslash] @ software_x)))
       = handleDeferMatches (pending_handleProcessor (test_handle_env False False)) + 1
   \<and> Type (fst (fst (pairHandles (test_handle_env False False)
        (pending_handleProcessor (test_handle_env False False)) close_event 0xabc handle_Key
        (''HKLM'' @ [backslash] @ software_x)))) = CreateHandle"
proof -
  let ?env = "test_handle_env False False"
  let ?h = "pending_handleProcessor ?env"
  let ?name = "''HKLM'' @ [backslash] @ software_x"
  have t: "Type close_event \<noteq> CreateHandle"
    by (simp add: close_event_def handle_event_def)
  obtain evt p where o: "objects ?h 0xabc = Some evt" and ty: "Type evt = CreateHandle"
    and k: "Kparams evt kparams_HandleObjectName = Some p"
    using pending_handleProcessor_objects [of False False] by blast
  have rm: "snd (fst (pairHandles ?env ?h close_event 0xabc handle_Key ?name)) = None"
    using t o k
    by (simp add: pairHandles_def SetValue_def test_handle_env_def Let_def handle_Key_def
        handle_Driver_def)
  have "Type (completed_CreateHandle ?env evt close_event handle_Key ?name) = CreateHandle"
    using ty by (simp add: completed_CreateHandle_def with_object_name_def)
  with CloseHandle_completes_pending_CreateHandle [OF t o k, of ?env handle_Key ?name] rm t o
  show ?thesis by simp
qed

text \<open>
  The third scenario of the specification: a \<open>CreateHandle\<close> without a name is held
  back with the cancel-upstream sentinel, and the \<open>CloseHandle\<close> on the same object
  makes the processor return the \<open>CreateHandle\<close> with the name \<open>HKLM\SOFTWARE\X\<close>
  and count one deferred match.
\<close>

lemma scenario_CreateHandle_then_CloseHandle:
  "r_err (handleProcessor_ProcessEvent (test_handle_env False False) test_handleProcessor
       (handle_event CreateHandle 44 [])) = Some ErrCancelUpstreamKevent
   \<and> r_err (handleProcessor_ProcessEvent (test_handle_env False False)
        (pending_handleProcessor (test_handle_env False False)) close_event) = None
   \<and> map_option Type (r_output (handleProcessor_ProcessEvent (test_handle_env False False)
        (pending_handleProcessor (test_handle_env False False)) close_event))
       = Some CreateHandle
   \<and> map_option (\<lambda>e. GetString (Kparams e) kparams_HandleObjectName)
        (r_output (handleProcessor_ProcessEvent (test_handle_env False False)
          (pending_handleProcessor (test_handle_env False False)) close_event))
       = Some (Inr (''HKLM'' @ [backslash] @ software_x))
   \<and> handleDeferMatches (snd (handleProcessor_ProcessEvent (test_handle_env False False)
        (pending_handleProcessor (test_handle_env False False)) close_event)) = 1"
  by (simp add: pending_handleProcessor_def handleProcessor_ProcessEvent_def
      handleProcessor_processEvent_def handle_event_def close_event_def GetUint32_def
      GetUint16_def GetUint64_def GetString_def resolveTypeName_def FindByID_def
      test_handleProcessor_def handle_Key_def handle_File_def handle_Driver_def Append_def
      Remove_def canonicalName_def SetValue_def pairHandles_def Let_def test_handle_env_def
      registry_machine_def software_x_def r_err_def r_output_def)

text \<open>
  C3, as the specification has it, fails: with a \<open>CreateHandle\<close> pending on the object
  \<open>0xabc\<close>, a \<open>CloseHandle\<close> on that object whose resolved name is
  \<open>HKLM\SOFTWARE\X\<close> makes the processor return the \<open>CloseHandle\<close>, with an error,
  when the handle snapshotter fails to write the completed event and to remove the
  \<open>CloseHandle\<close>.
\<close>

theorem CloseHandle_returned_counterexample:
  "objects (pending_handleProcessor (test_handle_env True True)) 0xabc \<noteq> None
   \<and> map_option Type (objects (pending_handleProcessor (test_handle_env True True)) 0xabc)
       = Some CreateHandle
   \<and> map_option Type (r_output (handleProcessor_ProcessEvent (test_handle_env True True)
        (pending_handleProcessor (test_handle_env True True)) close_event))
       = Some CloseHandle
   \<and> r_err (handleProcessor_ProcessEvent (test_handle_env True True)
        (pending_handleProcessor (test_handle_env True True)) close_event) = Some (Errno 6)"
  by (simp add: pending_handleProcessor_def handleProcessor_ProcessEvent_def
      handleProcessor_processEvent_def handle_event_def close_event_def GetUint32_def
      GetUint16_def GetUint64_def GetString_def resolveTypeName_def FindByID_def
      test_handleProcessor_def handle_Key_def handle_File_def handle_Driver_def Append_def
      Remove_def canonicalName_def SetValue_def pairHandles_def Let_def test_handle_env_def
      registry_machine_def software_x_def r_err_def r_output_def)

section \<open>Properties of the process snapshotter\<close>

lemma snapshotter_Remove_loop_effect:
  "procs (snapshotter_Remove_loop pid xs s) = procs s
   \<and> processCount (snapshotter_Remove_loop pid xs s) = processCount s
   \<and> (\<forall>a. store (snapshotter_Remove_loop pid xs s) a =
          (if a \<in> snd ` set xs \<and> PS_Ppid (store s a) = pid
           then (store s a)\<lparr>PS_Parent := None\<rparr> else store s a))"
proof (induction xs arbitrary: s)
  case Nil
  then show ?case by simp
next
  case (Cons x xs)
  obtain procID proc where x: "x = (procID, proc)" by (cases x) auto
  let ?s2 = "if PS_Ppid (store s proc) = pid then set_Parent s proc None else s"
  have pp: "\<And>a. PS_Ppid (store ?s2 a) = PS_Ppid (store s a)"
    by (simp add: set_Parent_def)
  have st: "\<And>a. store ?s2 a =
      (if a = proc \<and> PS_Ppid (store s a) = pid then (store s a)\<lparr>PS_Parent := None\<rparr>
       else store s a)"
    by (auto simp: set_Parent_def)
  have pr: "procs ?s2 = procs s" "processCount ?s2 = processCount s"
    by (simp_all add: set_Parent_def)
  from Cons.IH [of ?s2] have ih:
    "procs (snapshotter_Remove_loop pid xs ?s2) = procs ?s2"
    "processCount (snapshotter_Remove_loop pid xs ?s2) = processCount ?s2"
    "\<And>a. store (snapshotter_Remove_loop pid xs ?s2) a =
          (if a \<in> snd ` set xs \<and> PS_Ppid (store ?s2 a) = pid
           then (store ?s2 a)\<lparr>PS_Parent := None\<rparr> else store ?s2 a)"
    by blast+
  have "\<And>a. store (snapshotter_Remove_loop pid (x # xs) s) a =
          (if a \<in> snd ` set (x # xs) \<and> PS_Ppid (store s a) = pid
           then (store s a)\<lparr>PS_Parent := None\<rparr> else store s a)"
    unfolding x snapshotter_Remove_loop.simps ih(3) pp st by auto
  moreover have "procs (snapshotter_Remove_loop pid (x # xs) s) = procs s"
    "processCount (snapshotter_Remove_loop pid (x # xs) s) = processCount s"
    unfolding x snapshotter_Remove_loop.simps ih(1,2) pr by simp_all
  ultimately show ?case by blast
qed

text \<open>
  C7. After \<open>Remove\<close> of an event whose PID parameter is \<open>p\<close> the index has no
  entry for \<open>p\<close> and its other entries are as before; every record of the index whose
  parent PID is \<open>p\<close> has a nil parent pointer and is otherwise as before; every other
  record, in the index or not, is as before.
\<close>

theorem snapshotter_Remove_unlinks_children:
  assumes "GetPid (Kparams e) = Inr p"
  shows "fst (snapshotter_Remove s e) = None
    \<and> map_of (procs (snd (snapshotter_Remove s e))) p = None
    \<and> (\<forall>q. q \<noteq> p \<longrightarrow>
          map_of (procs (snd (snapshotter_Remove s e))) q = map_of (procs s) q)
    \<and> (\<forall>q a. map_of (procs (snd (snapshotter_Remove s e))) q = Some a \<longrightarrow>
          store (snd (snapshotter_Remove s e)) a =
            (if PS_Ppid (store s a) = p then (store s a)\<lparr>PS_Parent := None\<rparr>
             else store s a))
    \<and> (\<forall>a. a \<notin> snd ` set (procs (snd (snapshotter_Remove s e))) \<longrightarrow>
          store (snd (snapshotter_Remove s e)) a = store s a)"
proof -
  let ?s1 = "s\<lparr>procs := AList.delete p (procs s), processCount := processCount s - 1\<rparr>"
  have r: "snapshotter_Remove s e = (None, snapshotter_Remove_loop p (procs ?s1) ?s1)"
    using assms by (simp add: snapshotter_Remove_def Let_def)
  note eff = snapshotter_Remove_loop_effect [of p "procs ?s1" ?s1]
  have pr: "procs (snd (snapshotter_Remove s e)) = AList.delete p (procs s)"
    using eff r by simp
  have st: "\<And>a. store (snd (snapshotter_Remove s e)) a =
      (if a \<in> snd ` set (AList.delete p (procs s)) \<and> PS_Ppid (store s a) = p
       then (store s a)\<lparr>PS_Parent := None\<rparr> else store s a)"
    using eff r by simp
  have in_ran: "\<And>q a. map_of (AList.delete p (procs s)) q = Some a \<Longrightarrow>
      a \<in> snd ` set (AList.delete p (procs s))"
    by (metis map_of_SomeD snd_conv image_eqI)
  show ?thesis
    unfolding pr
    using r st in_ran by (auto simp: delete_conv')
qed

theorem snapshotter_Remove_unlinks_children_witness:
  "GetPid (Kparams (ps_event TerminateProcess 100 4 ''svchost.exe'' None)) = Inr 100
   \<and> map_of (procs (snd (snapshotter_Remove (test_snapshotter False)
        (ps_event TerminateProcess 100 4 ''svchost.exe'' None)))) 100 = None
   \<and> map_of (procs (snd (snapshotter_Remove (test_snapshotter False)
        (ps_event TerminateProcess 100 4 ''svchost.exe'' None)))) 200 = Some 2
   \<and> store (snd (snapshotter_Remove (test_snapshotter False)
        (ps_event TerminateProcess 100 4 ''svchost.exe'' None))) 2
       = (NewProc 200 100 ''cmd.exe'' [] [] [] 1)\<lparr>PS_Parent := None\<rparr>
   \<and> store (snd (snapshotter_Remove (test_snapshotter False)
        (ps_event TerminateProcess 100 4 ''svchost.exe'' None))) 0
       = NewProc 4 0 ''System'' [] [] [] 0
   \<and> store (snd (snapshotter_Remove (test_snapshotter False)
        (ps_event TerminateProcess 100 4 ''svchost.exe'' None))) 1
       = store (test_snapshotter False) 1"
proof -
  let ?e = "ps_event TerminateProcess 100 4 ''svchost.exe'' None"
  let ?s = "test_snapshotter False"
  have h: "GetPid (Kparams ?e) = Inr 100"
    by (simp add: GetPid_def GetUint32_def ps_event_def)
  note t = snapshotter_Remove_unlinks_children [OF h, of ?s]
  have i4: "map_of (procs ?s) 4 = Some 0" and i200: "map_of (procs ?s) 200 = Some 2"
    by (simp_all add: test_snapshotter_def)
  from t have n: "map_of (procs (snd (snapshotter_Remove ?s ?e))) 100 = None" by blast
  from t i200 have k200: "map_of (procs (snd (snapshotter_Remove ?s ?e))) 200 = Some 2"
    by simp
  from t i4 have k4: "map_of (procs (snd (snapshotter_Remove ?s ?e))) 4 = Some 0"
    by simp
  from t k200 have "store (snd (snapshotter_Remove ?s ?e)) 2 =
      (if PS_Ppid (store ?s 2) = 100 then (store ?s 2)\<lparr>PS_Parent := None\<rparr> else store ?s 2)"
    by blast
  then have s2: "store (snd (snapshotter_Remove ?s ?e)) 2
       = (NewProc 200 100 ''cmd.exe'' [] [] [] 1)\<lparr>PS_Parent := None\<rparr>"
    by (simp add: test_snapshotter_def NewProc_def)
  from t k4 have "store (snd (snapshotter_Remove ?s ?e)) 0 =
      (if PS_Ppid (store ?s 0) = 100 then (store ?s 0)\<lparr>PS_Parent := None\<rparr> else store ?s 0)"
    by blast
  then have s0: "store (snd (snapshotter_Remove ?s ?e)) 0 = NewProc 4 0 ''System'' [] [] [] 0"
    by (simp add: test_snapshotter_def NewProc_def)
  have "procs (snd (snapshotter_Remove ?s ?e)) = AList.delete 100 (procs ?s)"
    using h by (simp add: snapshotter_Remove_def Let_def snapshotter_Remove_loop_effect)
  also have "\<dots> = [(4, 0), (200, 2)]" by (simp add: test_snapshotter_def)
  finally have "1 \<notin> snd ` set (procs (snd (snapshotter_Remove ?s ?e)))" by simp
  with t have s1: "store (snd (snapshotter_Remove ?s ?e)) 1 = store ?s 1" by blast
  from h n k200 s2 s0 s1 show ?thesis by simp
qed

lemma gcDeadProcesses_loop_effect:
  "procs (gcDeadProcesses_loop env pids s)
     = filter (\<lambda>x. \<not> (fst x \<in> set pids \<and> reaped env (fst x))) (procs s)
   \<and> store (gcDeadProcesses_loop env pids s) = store s
   \<and> reapedProcesses (gcDeadProcesses_loop env pids s) = reapedProcesses s"
proof (induction pids arbitrary: s)
  case Nil
  then show ?case by simp
next
  case (Cons pid pids)
  have del: "\<And>xs. AList.delete pid xs = filter (\<lambda>x. fst x \<noteq> pid) xs"
    by (auto simp: AList.delete_eq intro: filter_cong)
  show ?case
  proof (cases "windows_OpenProcess env PROCESS_QUERY_LIMITED_INFORMATION pid")
    case (Inl err)
    then have "\<not> reaped env pid" by (simp add: reaped_def)
    with Inl Cons.IH [of s] show ?thesis
      by (auto intro: filter_cong)
  next
    case (Inr proc)
    show ?thesis
    proof (cases "zsyscall_IsProcessRunning env proc")
      case True
      with Inr have "\<not> reaped env pid" by (simp add: reaped_def)
      with Inr True Cons.IH [of s] show ?thesis
        by (auto intro: filter_cong)
    next
      case False
      with Inr have "reaped env pid" by (simp add: reaped_def)
      with Inr False Cons.IH [of "s\<lparr>procs := AList.delete pid (procs s)\<rparr>"] show ?thesis
        by (auto simp: del intro: filter_cong)
    qed
  qed
qed

lemma map_of_filter_fst:
  "map_of (filter (\<lambda>x. P (fst x)) xs) k = (if P k then map_of xs k else None)"
  by (induction xs) auto

lemma length_filter_not:
  "length xs - length (filter (\<lambda>x. \<not> P x) xs) = length (filter P xs)"
proof -
  have "length xs = length (filter P xs) + length (filter (\<lambda>x. \<not> P x) xs)"
    by (rule sum_length_filter_compl [symmetric])
  then show ?thesis by simp
qed

text \<open>
  C6. A sweep of the reaper removes from the index exactly the PIDs that the operating
  system lets it open with limited-information rights and reports as not running: a
  record whose process cannot be opened is kept, a record whose process is running is
  kept, a record whose process was opened and is not running is removed. The records
  themselves are not touched, and \<open>process.reaped\<close> grows by the number of entries
  removed.
\<close>

theorem gcDeadProcesses_reaps_only_dead:
  "(\<forall>pid. map_of (procs (gcDeadProcesses_tick env s)) pid
       = (if reaped env pid then None else map_of (procs s) pid))
   \<and> (\<forall>pid err. windows_OpenProcess env PROCESS_QUERY_LIMITED_INFORMATION pid = Inl err \<longrightarrow>
         map_of (procs (gcDeadProcesses_tick env s)) pid = map_of (procs s) pid)
   \<and> (\<forall>pid proc. windows_OpenProcess env PROCESS_QUERY_LIMITED_INFORMATION pid = Inr proc \<longrightarrow>
         map_of (procs (gcDeadProcesses_tick env s)) pid
           = (if zsyscall_IsProcessRunning env proc then map_of (procs s) pid else None))
   \<and> procs (gcDeadProcesses_tick env s) = filter (\<lambda>x. \<not> reaped env (fst x)) (procs s)
   \<and> store (gcDeadProcesses_tick env s) = store s
   \<and> reapedProcesses (gcDeadProcesses_tick env s)
       = reapedProcesses s + int (length (filter (\<lambda>x. reaped env (fst x)) (procs s)))
   \<and> reapedProcesses (gcDeadProcesses_tick env s)
       = reapedProcesses s
         + int (length (procs s) - length (procs (gcDeadProcesses_tick env s)))"
proof -
  let ?s1 = "gcDeadProcesses_loop env (map fst (procs s)) s"
  have "procs ?s1 = filter (\<lambda>x. \<not> (fst x \<in> set (map fst (procs s)) \<and> reaped env (fst x))) (procs s)"
    using gcDeadProcesses_loop_effect [of env "map fst (procs s)" s] by blast
  also have "\<dots> = filter (\<lambda>x. \<not> reaped env (fst x)) (procs s)"
    by (rule filter_cong) auto
  finally have p1: "procs ?s1 = filter (\<lambda>x. \<not> reaped env (fst x)) (procs s)" .
  have s1: "store ?s1 = store s" "reapedProcesses ?s1 = reapedProcesses s"
    using gcDeadProcesses_loop_effect [of env "map fst (procs s)" s] by blast+
  have cnt: "length (procs s) - length (procs ?s1)
      = length (filter (\<lambda>x. reaped env (fst x)) (procs s))"
    unfolding p1 by (rule length_filter_not)
  have le: "length (procs ?s1) \<le> length (procs s)" unfolding p1 by simp
  have pr: "procs (gcDeadProcesses_tick env s) = filter (\<lambda>x. \<not> reaped env (fst x)) (procs s)"
    by (simp add: gcDeadProcesses_tick_def Let_def p1)
  have st: "store (gcDeadProcesses_tick env s) = store s"
    by (simp add: gcDeadProcesses_tick_def Let_def s1)
  have rp: "reapedProcesses (gcDeadProcesses_tick env s)
       = reapedProcesses s + int (length (filter (\<lambda>x. reaped env (fst x)) (procs s)))"
    using cnt le by (auto simp: gcDeadProcesses_tick_def Let_def s1)
  have rp2: "reapedProcesses (gcDeadProcesses_tick env s)
       = reapedProcesses s + int (length (procs s) - length (procs (gcDeadProcesses_tick env s)))"
    unfolding rp pr using cnt p1 by simp
  have m: "\<And>pid. map_of (procs (gcDeadProcesses_tick env s)) pid
       = (if reaped env pid then None else map_of (procs s) pid)"
    unfolding pr using map_of_filter_fst [of "\<lambda>k. \<not> reaped env k" "procs s"] by simp
  show ?thesis
    using m pr st rp rp2 by (auto simp: reaped_def)
qed

theorem gcDeadProcesses_reaps_only_dead_witness:
  "windows_OpenProcess (test_snapshotter_env False) PROCESS_QUERY_LIMITED_INFORMATION 4
     = Inl (Errno 5)
   \<and> windows_OpenProcess (test_snapshotter_env False) PROCESS_QUERY_LIMITED_INFORMATION 200
     = Inr 200
   \<and> \<not> zsyscall_IsProcessRunning (test_snapshotter_env False) 200
   \<and> procs (gcDeadProcesses_tick (test_snapshotter_env False) (test_snapshotter False))
     = [(4, 0), (100, 1)]
   \<and> reapedProcesses (gcDeadProcesses_tick (test_snapshotter_env False) (test_snapshotter False))
     = 1"
  using gcDeadProcesses_reaps_only_dead [of "test_snapshotter_env False" "test_snapshotter False"]
  by (simp add: test_snapshotter_env_def test_snapshotter_def reaped_def)

lemma snapshotter_initProc_effect:
  assumes "MustGetUint32 (Kparams e) kparams_SessionID = Some sessionID"
  shows "\<exists>s2. snapshotter_initProc env s1 pid ppid e
        = Some (brk s1, initProc_error env pid e, s2)
      \<and> procs s2 = procs s1
      \<and> PS_PID (store s2 (brk s1)) = pid
      \<and> PS_Ppid (store s2 (brk s1)) = ppid
      \<and> (\<forall>a. a \<noteq> brk s1 \<longrightarrow> store s2 a = store s1 a)"
proof -
  let ?exe = "GetParamAsString (param_String env) e kparams_Exe"
  obtain pe perr where pe: "pe_Read env ?exe = (pe, perr)" by (cases "pe_Read env ?exe") auto
  obtain hs herr where hs: "hsnap_FindHandles env pid = (hs, herr)"
    by (cases "hsnap_FindHandles env pid") auto
  show ?thesis
  proof (cases perr)
    case (Some x)
    with assms pe show ?thesis
      by (simp add: snapshotter_initProc_def initProc_error_def alloc_def NewProc_def Let_def)
  next
    case None
    note pn = this
    show ?thesis
    proof (cases herr)
      case (Some x)
      with assms pe pn hs show ?thesis
        by (simp add: snapshotter_initProc_def initProc_error_def alloc_def NewProc_def Let_def)
    next
      case None
      note hn = this
      show ?thesis
      proof (cases "windows_OpenProcess env (or PROCESS_QUERY_INFORMATION PROCESS_VM_READ) pid")
        case (Inl a)
        with assms pe pn hs hn show ?thesis
          by (simp add: snapshotter_initProc_def initProc_error_def alloc_def NewProc_def
              Let_def)
      next
        case (Inr process)
        with assms pe pn hs hn show ?thesis
          by (cases "ReadPEB env process")
            (simp_all add: snapshotter_initProc_def initProc_error_def alloc_def NewProc_def
              Let_def)
      qed
    qed
  qed
qed

text \<open>
  C10, as the code has it. When the PID, the parent PID and the session id of the event
  are readable, \<open>initProc\<close> returns a new record together with its error (that of
  the PE reader, of \<open>FindHandles\<close> or of \<open>ReadPEB\<close>, or none), and \<open>Write\<close>
  returns that same error, whatever it is, after it has stored the new record in the
  index under the PID, linked its parent pointer to the index entry of the parent PID,
  and set the field \<open>PS\<close> of the event. So on the error path the index is changed.
\<close>

theorem snapshotter_Write_not_atomic:
  assumes "GetPid (Kparams e) = Inr pid"
    and "GetPpid (Kparams e) = Inr ppid"
    and "MustGetUint32 (Kparams e) kparams_SessionID = Some sessionID"
  shows "\<exists>s2 s' e'.
        snapshotter_initProc env (s\<lparr>processCount := processCount s + 1\<rparr>) pid ppid e
          = Some (brk s, initProc_error env pid e, s2)
      \<and> snapshotter_Write env s e = Some (initProc_error env pid e, s', e')
      \<and> procs s' = AList.update pid (brk s) (procs s)
      \<and> map_of (procs s') pid = Some (brk s)
      \<and> PS_PID (store s' (brk s)) = pid
      \<and> PS_Ppid (store s' (brk s)) = ppid
      \<and> PS_Parent (store s' (brk s)) = map_of (procs s') ppid
      \<and> PS e' = (if IsCreateProcess e then map_of (procs s') (PID e) else Some (brk s))"
proof -
  let ?s1 = "s\<lparr>processCount := processCount s + 1\<rparr>"
  let ?err = "initProc_error env pid e"
  from snapshotter_initProc_effect [OF assms(3), of env ?s1 pid ppid]
  obtain s2 where i: "snapshotter_initProc env ?s1 pid ppid e = Some (brk s, ?err, s2)"
    and p: "procs s2 = procs s"
    and f: "PS_PID (store s2 (brk s)) = pid" "PS_Ppid (store s2 (brk s)) = ppid"
    by auto
  let ?s3 = "s2\<lparr>procs := AList.update pid (brk s) (procs s2)\<rparr>"
  let ?s4 = "set_Parent ?s3 (brk s) (map_of (procs ?s3) ppid)"
  let ?e' = "if IsCreateProcess e then e\<lparr>PS := map_of (procs ?s4) (PID e)\<rparr>
             else e\<lparr>PS := Some (brk s)\<rparr>"
  have w: "snapshotter_Write env s e = Some (?err, ?s4, ?e')"
    using assms(1,2) i by (simp add: snapshotter_Write_def Let_def)
  have "procs ?s4 = AList.update pid (brk s) (procs s)"
    by (simp add: set_Parent_def p)
  moreover have "map_of (procs ?s4) pid = Some (brk s)"
    by (simp add: set_Parent_def update_conv')
  moreover have "PS_PID (store ?s4 (brk s)) = pid" "PS_Ppid (store ?s4 (brk s)) = ppid"
    using f by (simp_all add: set_Parent_def)
  moreover have "PS_Parent (store ?s4 (brk s)) = map_of (procs ?s4) ppid"
    by (simp add: set_Parent_def)
  moreover have "PS ?e' = (if IsCreateProcess e then map_of (procs ?s4) (PID e) else Some (brk s))"
    by simp
  ultimately show ?thesis using w i by blast
qed

theorem snapshotter_Write_not_atomic_witness:
  "GetPid (Kparams (ps_event ProcessRundown 300 4 ''calc.exe'' None)) = Inr 300
   \<and> GetPpid (Kparams (ps_event ProcessRundown 300 4 ''calc.exe'' None)) = Inr 4
   \<and> MustGetUint32 (Kparams (ps_event ProcessRundown 300 4 ''calc.exe'' None))
        kparams_SessionID = Some 1
   \<and> map_of (procs (test_snapshotter False)) 300 = None
   \<and> fst (the (snapshotter_Write (test_snapshotter_env True) (test_snapshotter False)
        (ps_event ProcessRundown 300 4 ''calc.exe'' None))) = Some (Errno 2)
   \<and> map_of (procs (fst (snd (the (snapshotter_Write (test_snapshotter_env True)
        (test_snapshotter False) (ps_event ProcessRundown 300 4 ''calc.exe'' None)))))) 300
       = Some 3
   \<and> PS_Parent (store (fst (snd (the (snapshotter_Write (test_snapshotter_env True)
        (test_snapshotter False) (ps_event ProcessRundown 300 4 ''calc.exe'' None))))) 3)
       = Some 0
   \<and> PS (snd (snd (the (snapshotter_Write (test_snapshotter_env True)
        (test_snapshotter False) (ps_event ProcessRundown 300 4 ''calc.exe'' None)))))
       = Some 3
   \<and> fst (the (snapshotter_Write (test_snapshotter_env False) (test_snapshotter False)
        (ps_event ProcessRundown 300 4 ''calc.exe'' None))) = Some (Errno 299)
   \<and> map_of (procs (fst (snd (the (snapshotter_Write (test_snapshotter_env False)
        (test_snapshotter False) (ps_event ProcessRundown 300 4 ''calc.exe'' None)))))) 300
       = Some 3"
proof -
  let ?e = "ps_event ProcessRundown 300 4 ''calc.exe'' None"
  let ?s = "test_snapshotter False"
  have h1: "GetPid (Kparams ?e) = Inr 300" and h2: "GetPpid (Kparams ?e) = Inr 4"
    and h3: "MustGetUint32 (Kparams ?e) kparams_SessionID = Some 1"
    by (simp_all add: GetPid_def GetPpid_def MustGetUint32_def GetUint32_def ps_event_def)
  have b: "brk ?s = 3" and m: "map_of (procs ?s) 300 = None" "map_of (procs ?s) 4 = Some 0"
    by (simp_all add: test_snapshotter_def)
  have pe: "initProc_error (test_snapshotter_env True) 300 ?e = Some (Errno 2)"
    by (simp add: initProc_error_def test_snapshotter_env_def)
  have peb: "initProc_error (test_snapshotter_env False) 300 ?e = Some (Errno 299)"
    by (simp add: initProc_error_def test_snapshotter_env_def)
  have nc: "\<not> IsCreateProcess ?e" by (simp add: IsCreateProcess_def ps_event_def)
  from snapshotter_Write_not_atomic [OF h1 h2 h3, where env = "test_snapshotter_env True"
      and s = ?s]
  obtain s' e' where w: "snapshotter_Write (test_snapshotter_env True) ?s ?e
        = Some (initProc_error (test_snapshotter_env True) 300 ?e, s', e')"
    and p: "procs s' = AList.update 300 (brk ?s) (procs ?s)"
    and i: "map_of (procs s') 300 = Some (brk ?s)"
    and pa: "PS_Parent (store s' (brk ?s)) = map_of (procs s') 4"
    and ps: "PS e' = (if IsCreateProcess ?e then map_of (procs s') (PID ?e) else Some (brk ?s))"
    by blast
  from p m have p4: "map_of (procs s') 4 = Some 0" by (simp add: update_conv')
  from snapshotter_Write_not_atomic [OF h1 h2 h3, where env = "test_snapshotter_env False"
      and s = ?s]
  obtain t' f' where w2: "snapshotter_Write (test_snapshotter_env False) ?s ?e
        = Some (initProc_error (test_snapshotter_env False) 300 ?e, t', f')"
    and i2: "map_of (procs t') 300 = Some (brk ?s)"
    by blast
  from w pe i pa ps nc p4 w2 peb i2 h1 h2 h3 m b show ?thesis by simp
qed

text \<open>
  C10, as it is worded, fails: with the PID and the parent PID readable and the
  session id missing, \<open>initProc\<close> panics in \<open>MustGetUint32\<close> and \<open>Write\<close> does
  not return; no record is inserted.
\<close>

theorem snapshotter_Write_panics_counterexample:
  "GetPid (Kparams no_session_event) = Inr 300
   \<and> GetPpid (Kparams no_session_event) = Inr 4
   \<and> snapshotter_Write (test_snapshotter_env True) (test_snapshotter False) no_session_event
       = None"
  by (simp add: snapshotter_Write_def snapshotter_initProc_def no_session_event_def ps_event_def
      GetPid_def GetPpid_def GetUint32_def MustGetUint32_def Remove_def Let_def)

text \<open>
  C5, as the code has it. Let a process event carry a process record and readable PID
  and parent PID parameters. A \<open>ProcessRundown\<close> whose record has its PID equal to its
  parent PID is discarded and the snapshotter, and so \<open>Size()\<close>, is unchanged. Any
  other \<open>ProcessRundown\<close> stores the pointer to the record of the event in the index
  under the PID parameter, and sets the parent pointer of that record to the index entry
  of the parent PID parameter. A \<open>CreateProcess\<close> (with a readable session id) stores
  under the PID parameter a new record built from the parameters of the event, not the
  record of the event; no record other than these two is touched.
\<close>

theorem snapshotter_WriteFromKcap_process_events:
  assumes "PS e = Some proc"
    and "GetPid (Kparams e) = Inr pid"
    and "GetPpid (Kparams e) = Inr ppid"
  shows "(Type e = ProcessRundown \<and> PS_PID (store s proc) = PS_Ppid (store s proc) \<longrightarrow>
           snapshotter_WriteFromKcap env s e = Some (None, s))
    \<and> (Type e = ProcessRundown \<and> PS_PID (store s proc) \<noteq> PS_Ppid (store s proc) \<longrightarrow>
         (\<exists>s'. snapshotter_WriteFromKcap env s e = Some (None, s')
            \<and> procs s' = AList.update pid proc (procs s)
            \<and> map_of (procs s') pid = Some proc
            \<and> store s' = (store s)(proc := (store s proc)\<lparr>PS_Parent := map_of (procs s') ppid\<rparr>)
            \<and> brk s' = brk s))
    \<and> (Type e = CreateProcess \<and> MustGetUint32 (Kparams e) kparams_SessionID = Some sessionID \<longrightarrow>
         (\<exists>s'. snapshotter_WriteFromKcap env s e = Some (None, s')
            \<and> procs s' = AList.update pid (brk s) (procs s)
            \<and> map_of (procs s') pid = Some (brk s)
            \<and> (proc \<noteq> brk s \<longrightarrow>
                 store s' (brk s) =
                   NewProc pid ppid
                     (GetParamAsString (param_String env) e kparams_ProcessName)
                     (GetParamAsString (param_String env) e kparams_Cmdline)
                     (GetParamAsString (param_String env) e kparams_Exe)
                     (GetParamAsString (param_String env) e kparams_UserSID)
                     (ucast sessionID))
            \<and> (\<forall>a. a \<noteq> proc \<and> a \<noteq> brk s \<longrightarrow> store s' a = store s a)))"
proof (intro conjI impI)
  assume "Type e = ProcessRundown \<and> PS_PID (store s proc) = PS_Ppid (store s proc)"
  with assms show "snapshotter_WriteFromKcap env s e = Some (None, s)"
    by (simp add: snapshotter_WriteFromKcap_def)
next
  assume a: "Type e = ProcessRundown \<and> PS_PID (store s proc) \<noteq> PS_Ppid (store s proc)"
  let ?s1 = "s\<lparr>procs := AList.update pid proc (procs s)\<rparr>"
  let ?s' = "set_Parent ?s1 proc (map_of (procs ?s1) ppid)"
  have "snapshotter_WriteFromKcap env s e = Some (None, ?s')"
    using assms a by (simp add: snapshotter_WriteFromKcap_def Let_def)
  moreover have "procs ?s' = AList.update pid proc (procs s)"
    by (simp add: set_Parent_def)
  moreover have "map_of (procs ?s') pid = Some proc"
    by (simp add: set_Parent_def update_conv')
  moreover have "store ?s' = (store s)(proc := (store s proc)\<lparr>PS_Parent := map_of (procs ?s') ppid\<rparr>)"
    by (simp add: set_Parent_def)
  moreover have "brk ?s' = brk s" by (simp add: set_Parent_def)
  ultimately show "\<exists>s'. snapshotter_WriteFromKcap env s e = Some (None, s')
            \<and> procs s' = AList.update pid proc (procs s)
            \<and> map_of (procs s') pid = Some proc
            \<and> store s' = (store s)(proc := (store s proc)\<lparr>PS_Parent := map_of (procs s') ppid\<rparr>)
            \<and> brk s' = brk s"
    by blast
next
  assume a: "Type e = CreateProcess \<and> MustGetUint32 (Kparams e) kparams_SessionID = Some sessionID"
  let ?new = "NewProc pid ppid
                     (GetParamAsString (param_String env) e kparams_ProcessName)
                     (GetParamAsString (param_String env) e kparams_Cmdline)
                     (GetParamAsString (param_String env) e kparams_Exe)
                     (GetParamAsString (param_String env) e kparams_UserSID)
                     (ucast sessionID)"
  let ?s0 = "s\<lparr>store := (store s)(brk s := ?new), brk := Suc (brk s)\<rparr>"
  let ?s1 = "?s0\<lparr>procs := AList.update pid (brk s) (procs ?s0)\<rparr>"
  let ?s' = "set_Parent ?s1 proc (map_of (procs ?s1) ppid)"
  have "snapshotter_WriteFromKcap env s e = Some (None, ?s')"
    using assms a by (simp add: snapshotter_WriteFromKcap_def alloc_def Let_def)
  moreover have "procs ?s' = AList.update pid (brk s) (procs s)"
    by (simp add: set_Parent_def)
  moreover have "map_of (procs ?s') pid = Some (brk s)"
    by (simp add: set_Parent_def update_conv')
  moreover have "proc \<noteq> brk s \<longrightarrow> store ?s' (brk s) = ?new"
    by (simp add: set_Parent_def)
  moreover have "\<forall>a. a \<noteq> proc \<and> a \<noteq> brk s \<longrightarrow> store ?s' a = store s a"
    by (simp add: set_Parent_def)
  ultimately show "\<exists>s'. snapshotter_WriteFromKcap env s e = Some (None, s')
            \<and> procs s' = AList.update pid (brk s) (procs s)
            \<and> map_of (procs s') pid = Some (brk s)
            \<and> (proc \<noteq> brk s \<longrightarrow> store s' (brk s) = ?new)
            \<and> (\<forall>a. a \<noteq> proc \<and> a \<noteq> brk s \<longrightarrow> store s' a = store s a)"
    by blast
qed

theorem snapshotter_WriteFromKcap_process_events_witness:
  "snapshotter_WriteFromKcap kcap_env kcap_snapshotter
       (ps_event ProcessRundown 0 0 ''Idle'' (Some 1)) = Some (None, kcap_snapshotter)
   \<and> snapshotter_Size kcap_snapshotter = 1
   \<and> map_of (procs (snd (the (snapshotter_WriteFromKcap kcap_env kcap_snapshotter
        (ps_event ProcessRundown 100 4 ''svchost.exe'' (Some 2)))))) 100 = Some 2
   \<and> PS_Parent (store (snd (the (snapshotter_WriteFromKcap kcap_env kcap_snapshotter
        (ps_event ProcessRundown 100 4 ''svchost.exe'' (Some 2))))) 2) = Some 0
   \<and> map_of (procs (snd (the (snapshotter_WriteFromKcap kcap_env kcap_snapshotter
        kcap_CreateProcess)))) 300 = Some 3
   \<and> PS_Name (store (snd (the (snapshotter_WriteFromKcap kcap_env kcap_snapshotter
        kcap_CreateProcess))) 3) = ''calc.exe''"
proof -
  let ?idle = "ps_event ProcessRundown 0 0 ''Idle'' (Some 1)"
  let ?svc = "ps_event ProcessRundown 100 4 ''svchost.exe'' (Some 2)"
  let ?s = kcap_snapshotter
  have i: "PS ?idle = Some 1" "GetPid (Kparams ?idle) = Inr 0" "GetPpid (Kparams ?idle) = Inr 0"
    "Type ?idle = ProcessRundown \<and> PS_PID (store ?s 1) = PS_Ppid (store ?s 1)"
    by (simp_all add: ps_event_def GetPid_def GetPpid_def GetUint32_def kcap_snapshotter_def
        NewProc_def)
  from snapshotter_WriteFromKcap_process_events [OF i(1,2,3), where s = ?s and env = kcap_env] i(4)
  have r1: "snapshotter_WriteFromKcap kcap_env ?s ?idle = Some (None, ?s)" by blast
  have v: "PS ?svc = Some 2" "GetPid (Kparams ?svc) = Inr 100" "GetPpid (Kparams ?svc) = Inr 4"
    "Type ?svc = ProcessRundown \<and> PS_PID (store ?s 2) \<noteq> PS_Ppid (store ?s 2)"
    by (simp_all add: ps_event_def GetPid_def GetPpid_def GetUint32_def kcap_snapshotter_def
        NewProc_def)
  from snapshotter_WriteFromKcap_process_events [OF v(1,2,3), where s = ?s and env = kcap_env] v(4)
  obtain s' where r2: "snapshotter_WriteFromKcap kcap_env ?s ?svc = Some (None, s')"
    and p2: "procs s' = AList.update 100 2 (procs ?s)"
    and m2: "map_of (procs s') 100 = Some 2"
    and st2: "store s' = (store ?s)(2 := (store ?s 2)\<lparr>PS_Parent := map_of (procs s') 4\<rparr>)"
    by blast
  from p2 have "map_of (procs s') 4 = Some 0"
    by (simp add: kcap_snapshotter_def)
  with st2 have pa2: "PS_Parent (store s' 2) = Some 0" by simp
  have c: "PS kcap_CreateProcess = Some 0" "GetPid (Kparams kcap_CreateProcess) = Inr 300"
    "GetPpid (Kparams kcap_CreateProcess) = Inr 4"
    "Type kcap_CreateProcess = CreateProcess
       \<and> MustGetUint32 (Kparams kcap_CreateProcess) kparams_SessionID = Some 1"
    by (simp_all add: kcap_CreateProcess_def ps_event_def GetPid_def GetPpid_def GetUint32_def
        MustGetUint32_def)
  have b: "brk ?s = 3" by (simp add: kcap_snapshotter_def)
  from snapshotter_WriteFromKcap_process_events [OF c(1,2,3), where s = ?s and env = kcap_env and sessionID = 1] c(4)
  obtain s3 where r3: "snapshotter_WriteFromKcap kcap_env ?s kcap_CreateProcess = Some (None, s3)"
    and m3: "map_of (procs s3) 300 = Some (brk ?s)"
    and st3: "0 \<noteq> brk ?s \<longrightarrow>
                 store s3 (brk ?s) =
                   NewProc 300 4
                     (GetParamAsString (param_String kcap_env) kcap_CreateProcess kparams_ProcessName)
                     (GetParamAsString (param_String kcap_env) kcap_CreateProcess kparams_Cmdline)
                     (GetParamAsString (param_String kcap_env) kcap_CreateProcess kparams_Exe)
                     (GetParamAsString (param_String kcap_env) kcap_CreateProcess kparams_UserSID)
                     (ucast (1 :: 32 word))"
    by blast
  from st3 b have "PS_Name (store s3 3) = ''calc.exe''"
    by (simp add: NewProc_def GetParamAsString_def kcap_CreateProcess_def ps_event_def)
  with r1 r2 m2 pa2 r3 m3 b show ?thesis
    by (simp add: snapshotter_Size_def kcap_snapshotter_def)
qed

text \<open>
  C5, as the specification has it, fails: the \<open>CreateProcess\<close> of the process 300
  read from a capture carries the record of its creator, the process 4 at address 0;
  \<open>WriteFromKcap\<close> stores under the PID 300 a new record, at address 3, built from
  the parameters, and not the record of the event.
\<close>

theorem snapshotter_WriteFromKcap_verbatim_counterexample:
  "PS kcap_CreateProcess = Some 0
   \<and> snapshotter_WriteFromKcap kcap_env kcap_snapshotter kcap_CreateProcess \<noteq> None
   \<and> map_of (procs (snd (the (snapshotter_WriteFromKcap kcap_env kcap_snapshotter
        kcap_CreateProcess)))) 300 = Some 3
   \<and> PS_PID (store (snd (the (snapshotter_WriteFromKcap kcap_env kcap_snapshotter
        kcap_CreateProcess))) 3) = 300
   \<and> PS_PID (store (snd (the (snapshotter_WriteFromKcap kcap_env kcap_snapshotter
        kcap_CreateProcess))) 0) = 4"
  by (simp add: snapshotter_WriteFromKcap_def kcap_CreateProcess_def ps_event_def GetPid_def
      GetPpid_def GetUint32_def MustGetUint32_def alloc_def set_Parent_def Let_def
      kcap_snapshotter_def NewProc_def update_conv')

section \<open>Properties of the handle-name resolver\<close>

lemma spawnWorker_running:
  "thread r \<noteq> 0 \<Longrightarrow> spawnWorker os r = Inr r"
  by (simp add: spawnWorker_def)

lemma spawnWorker_fresh:
  assumes "thread r = 0"
    and "windows_ResetEvent os (ini r) = None"
    and "windows_ResetEvent os (done_event r) = None"
    and "zsyscall_CreateThread os \<noteq> 0"
  shows "spawnWorker os r =
     Inr ((called r [SysResetEvent (ini r), SysResetEvent (done_event r), SysCreateThread])
            \<lparr>thread := zsyscall_CreateThread os\<rparr>)"
  using assms by (simp add: spawnWorker_def Let_def called_def)

text \<open>
  C8 fails on the code. Let the worker thread be running, or be spawned by this call,
  let \<open>SetEvent\<close> succeed, and let the worker not signal completion within the
  timeout: the wait on the event \<open>done\<close> ends with the status 258, and so, by the
  contract of \<open>WaitForSingleObject\<close>, without an error. Then the test
  \<open>err == windows.WAIT_TIMEOUT\<close> fails and \<open>GetHandleWithTimeout\<close> returns the
  empty string and no error, does not count a timeout, makes no call after the wait
  (the thread is not terminated, not joined, its handle not closed) and leaves the
  thread slot as it was.
\<close>

theorem GetHandleWithTimeout_timeout_unnoticed:
  assumes "spawnWorker os r = Inr r1"
    and "windows_SetEvent os (ini r1) = None"
    and "wait_contract os"
    and "fst (windows_WaitForSingleObject os (done_event r1) timeout) = WAIT_TIMEOUT_status"
  shows "fst (GetHandleWithTimeout os r handle timeout) = ([], None)
    \<and> waitTimeoutCounts (snd (GetHandleWithTimeout os r handle timeout)) = waitTimeoutCounts r1
    \<and> thread (snd (GetHandleWithTimeout os r handle timeout)) = thread r1
    \<and> syscalls (snd (GetHandleWithTimeout os r handle timeout))
       = syscalls r1 @ [SysSetEvent (ini r1), SysWaitForSingleObject (done_event r1) timeout]"
proof -
  obtain st er where w: "windows_WaitForSingleObject os (done_event r1) timeout = (st, er)"
    by (cases "windows_WaitForSingleObject os (done_event r1) timeout") auto
  from assms(4) w have st: "st = WAIT_TIMEOUT_status" by simp
  have "er = None"
  proof (rule ccontr)
    assume "er \<noteq> None"
    with assms(3) w have "st = WAIT_FAILED"
      unfolding wait_contract_def by (metis fst_conv snd_conv)
    with st show False by (simp add: WAIT_FAILED_def WAIT_TIMEOUT_status_def)
  qed
  with assms(1,2) w st show ?thesis
    by (simp add: GetHandleWithTimeout_def Let_def called_def WAIT_OBJECT_0_def
        WAIT_TIMEOUT_status_def)
qed

lemma wait_contract_test_resolver_os: "wait_contract test_resolver_os"
  by (simp add: wait_contract_def test_resolver_os_def)

theorem GetHandleWithTimeout_timeout_unnoticed_witness:
  "spawnWorker test_resolver_os test_resolver = Inr test_resolver
   \<and> wait_contract test_resolver_os
   \<and> windows_WaitForSingleObject test_resolver_os (done_event test_resolver) 1000
       = (258, None)
   \<and> fst (GetHandleWithTimeout test_resolver_os test_resolver 0x44 1000) = ([], None)
   \<and> waitTimeoutCounts (snd (GetHandleWithTimeout test_resolver_os test_resolver 0x44 1000)) = 0
   \<and> thread (snd (GetHandleWithTimeout test_resolver_os test_resolver 0x44 1000)) = 0x50
   \<and> syscalls (snd (GetHandleWithTimeout test_resolver_os test_resolver 0x44 1000))
       = [SysSetEvent 0x10, SysWaitForSingleObject 0x20 1000]"
proof -
  have h1: "spawnWorker test_resolver_os test_resolver = Inr test_resolver"
    by (simp add: spawnWorker_def test_resolver_def)
  have h2: "windows_SetEvent test_resolver_os (ini test_resolver) = None"
    by (simp add: test_resolver_os_def)
  have h4: "fst (windows_WaitForSingleObject test_resolver_os (done_event test_resolver) 1000)
      = WAIT_TIMEOUT_status"
    by (simp add: test_resolver_os_def test_resolver_def)
  have w: "windows_WaitForSingleObject test_resolver_os (done_event test_resolver) 1000
       = (258, None)"
    by (simp add: test_resolver_os_def test_resolver_def WAIT_TIMEOUT_status_def)
  from GetHandleWithTimeout_timeout_unnoticed
    [OF h1 h2 wait_contract_test_resolver_os h4, where handle = "0x44"]
    h1 w wait_contract_test_resolver_os
  show ?thesis by (simp add: test_resolver_def)
qed

text \<open>
  What the branch under \<open>err == windows.WAIT_TIMEOUT\<close> does when it is taken, which
  by the contract of the wait needs the status \<open>WAIT_FAILED\<close> together with the error
  number 258: it counts a timeout, and when \<open>TerminateThread\<close> and the wait for the
  end of the thread succeed it returns the timeout error, having terminated the thread,
  waited for it, closed its handle and cleared the thread slot.
\<close>

lemma GetHandleWithTimeout_timeout_branch:
  assumes "spawnWorker os r = Inr r1"
    and "windows_SetEvent os (ini r1) = None"
    and "windows_WaitForSingleObject os (done_event r1) timeout = (st, Some WAIT_TIMEOUT)"
    and "st \<noteq> WAIT_OBJECT_0"
    and "zsyscall_TerminateThread os (thread r1) = None"
    and "snd (windows_WaitForSingleObject os (thread r1) timeout) = None"
  shows "fst (GetHandleWithTimeout os r handle timeout)
       = ([], Some (Errorf ''couldn't resolve handle name due to timeout'' [] []))
    \<and> waitTimeoutCounts (snd (GetHandleWithTimeout os r handle timeout))
       = waitTimeoutCounts r1 + 1
    \<and> thread (snd (GetHandleWithTimeout os r handle timeout)) = 0
    \<and> syscalls (snd (GetHandleWithTimeout os r handle timeout))
       = syscalls r1 @ [SysSetEvent (ini r1), SysWaitForSingleObject (done_event r1) timeout,
                        SysTerminateThread (thread r1),
                        SysWaitForSingleObject (thread r1) timeout,
                        SysCloseHandle (thread r1)]"
  using assms by (simp add: GetHandleWithTimeout_def Let_def called_def)

end
